theory Spec2Isabelle
  imports Complex_Main "HOL-Library.Sublist" "HOL-Library.Multiset"
begin

section \<open>Dynamically typed values\<close>

text \<open>
  The server decodes request bodies into \<^verbatim>\<open>map[string]interface{}\<close> and builds its
  responses from the same kind of value. \<open>goval\<close> is the dynamic value of the Go program:
  \<open>VFloat\<close> is a \<^verbatim>\<open>float64\<close> (every JSON number decodes to one; only comparison with the
  constants 10 and 4 is ever made, so a rational stands for it), \<open>VInt\<close> an \<^verbatim>\<open>int\<close>,
  \<open>VTime\<close> a \<^verbatim>\<open>time.Time\<close>, \<open>VSlice\<close> a \<^verbatim>\<open>[]interface{}\<close> and \<open>VMap\<close> a
  \<^verbatim>\<open>map[string]interface{}\<close>, kept as an association list that is read with \<open>map_of\<close>.
\<close>

datatype goval =
    VNil
  | VBool bool
  | VFloat rat
  | VInt int
  | VString string
  | VTime int
  | VSlice "goval list"
  | VMap "(string \<times> goval) list"

text \<open>\<^verbatim>\<open>m[key]\<close> on a map: the zero value \<open>VNil\<close> when the key is absent.\<close>

definition index :: "(string \<times> goval) list \<Rightarrow> string \<Rightarrow> goval" where
  "index m k = (case map_of m k of None \<Rightarrow> VNil | Some v \<Rightarrow> v)"

section \<open>Query decode (handleExtensionQuery, first half)\<close>

text \<open>
  One iteration of the loop over \<^verbatim>\<open>criteria\<close>: the pair is
  \<^verbatim>\<open>(searchQuery, extensionId)\<close>. Every type assertion that fails leaves the pair as it is.
\<close>

fun scanCriterion :: "goval \<Rightarrow> string \<times> string \<Rightarrow> string \<times> string" where
  "scanCriterion (VMap criterionMap) (searchQuery, extensionId) =
     (case index criterionMap ''filterType'' of
        VFloat filterType \<Rightarrow>
          (if filterType = 10 then
             (case index criterionMap ''value'' of
                VString v \<Rightarrow> (v, extensionId)
              | _ \<Rightarrow> (searchQuery, extensionId))
           else if filterType = 4 then
             (case index criterionMap ''value'' of
                VString v \<Rightarrow> (searchQuery, v)
              | _ \<Rightarrow> (searchQuery, extensionId))
           else (searchQuery, extensionId))
      | _ \<Rightarrow> (searchQuery, extensionId))"
| "scanCriterion _ acc = acc"

text \<open>The \<^verbatim>\<open>for _, criterion := range criteria\<close> loop: no \<^verbatim>\<open>break\<close>, every criterion is visited.\<close>

fun scanCriteria :: "goval list \<Rightarrow> string \<times> string \<Rightarrow> string \<times> string" where
  "scanCriteria [] acc = acc"
| "scanCriteria (criterion # rest) acc = scanCriteria rest (scanCriterion criterion acc)"

text \<open>
  The decode of a body that parsed to the map \<open>query\<close>: a non-empty top-level
  \<^verbatim>\<open>"query"\<close> string wins; otherwise the criteria of \<^verbatim>\<open>filters[0]\<close> are scanned.
\<close>

definition scanFilters :: "(string \<times> goval) list \<Rightarrow> string \<times> string" where
  "scanFilters query =
     (case index query ''filters'' of
        VSlice (VMap flt # _) \<Rightarrow>
          (case index flt ''criteria'' of
             VSlice criteria \<Rightarrow> scanCriteria criteria ([], [])
           | _ \<Rightarrow> ([], []))
      | _ \<Rightarrow> ([], []))"

definition decodeQuery :: "(string \<times> goval) list \<Rightarrow> string \<times> string" where
  "decodeQuery query =
     (case index query ''query'' of
        VString q \<Rightarrow> (if q \<noteq> [] then (q, []) else scanFilters query)
      | _ \<Rightarrow> scanFilters query)"

text \<open>
  What the decode is compared with. \<open>taggedValue t c\<close> is the string a criterion carries
  for the tag \<open>t\<close>, if it is a criterion of that tag with a string value;
  \<open>occurrences\<close> lists them in the order of the criteria list.
\<close>

fun taggedValue :: "rat \<Rightarrow> goval \<Rightarrow> string option" where
  "taggedValue t (VMap criterionMap) =
     (case index criterionMap ''filterType'' of
        VFloat filterType \<Rightarrow>
          (if filterType = t then
             (case index criterionMap ''value'' of VString v \<Rightarrow> Some v | _ \<Rightarrow> None)
           else None)
      | _ \<Rightarrow> None)"
| "taggedValue t _ = None"

definition occurrences :: "rat \<Rightarrow> goval list \<Rightarrow> string list" where
  "occurrences t criteria = List.map_filter (taggedValue t) criteria"

text \<open>The reading of the specification: the first occurrence of a tag gives its value.\<close>

definition firstOccurrence :: "rat \<Rightarrow> goval list \<Rightarrow> string" where
  "firstOccurrence t criteria = (case occurrences t criteria of [] \<Rightarrow> [] | v # _ \<Rightarrow> v)"

definition lastOr :: "string \<Rightarrow> string list \<Rightarrow> string" where
  "lastOr d vs = (case rev vs of [] \<Rightarrow> d | v # _ \<Rightarrow> v)"

definition lastOccurrence :: "rat \<Rightarrow> goval list \<Rightarrow> string" where
  "lastOccurrence t criteria = lastOr [] (occurrences t criteria)"

text \<open>The body carries no non-empty top-level \<^verbatim>\<open>"query"\<close> string.\<close>

definition noTopLevelQuery :: "(string \<times> goval) list \<Rightarrow> bool" where
  "noTopLevelQuery query = (case index query ''query'' of VString q \<Rightarrow> q = [] | _ \<Rightarrow> True)"

section \<open>Data model\<close>

text \<open>
  A \<^verbatim>\<open>time.Time\<close> is an instant on the integer line, an \<^verbatim>\<open>int64\<close> an integer (no
  arithmetic is done on either), a \<^verbatim>\<open>float64\<close> a rational, a \<^verbatim>\<open>[]string\<close> a list
  (the nil slice and the empty slice are both \<open>[]\<close>).
\<close>

record Engines =
  VSCode :: string

text \<open>\<^verbatim>\<open>models.Extension\<close>.\<close>

record Extension =
  ID :: string
  Name :: string
  DisplayName :: string
  Description :: string
  Version :: string
  Publisher :: string
  Engines :: Engines
  Categories :: "string list"
  Tags :: "string list"
  Icon :: string
  Repository :: string
  Homepage :: string
  Bugs :: string
  License :: string
  FileSize :: int
  LastUpdated :: int
  FilePath :: string
  Verified :: bool
  AverageRating :: rat
  ReviewCount :: int
  DownloadCount :: int
  Namespace :: string
  ExtensionID :: string
  ShortDescription :: string
  PublishedDate :: int
  ReleaseDate :: int
  PreRelease :: bool
  Deprecated :: bool
  TargetPlatform :: string
  ReadmeContent :: string

text \<open>
  \<^verbatim>\<open>database.ExtensionDB\<close>, one row of the table \<^verbatim>\<open>extensions\<close>. The columns
  \<open>db_Engines\<close>, \<open>db_Categories\<close> and \<open>db_Tags\<close> hold JSON text.
\<close>

record ExtensionDB =
  db_ID :: string
  db_Name :: string
  db_DisplayName :: string
  db_Description :: string
  db_Version :: string
  db_Publisher :: string
  db_Engines :: string
  db_Categories :: string
  db_Tags :: string
  db_Icon :: string
  db_Repository :: string
  db_Homepage :: string
  db_Bugs :: string
  db_License :: string
  db_FileSize :: int
  db_LastUpdated :: int
  db_FilePath :: string
  db_CreatedAt :: int
  db_UpdatedAt :: int
  db_Verified :: bool
  db_AverageRating :: rat
  db_ReviewCount :: int
  db_DownloadCount :: int
  db_Namespace :: string
  db_ExtensionID :: string
  db_ShortDescription :: string
  db_PublishedDate :: int
  db_ReleaseDate :: int
  db_PreRelease :: bool
  db_Deprecated :: bool
  db_TargetPlatform :: string
  db_ReadmeContent :: string

text \<open>
  \<^verbatim>\<open>encoding/json\<close> on the three JSON columns: the library is a parameter. The decoders
  are total, since \<^verbatim>\<open>ToExtension\<close> drops the error of \<^verbatim>\<open>json.Unmarshal\<close> and keeps what
  the variable holds.
\<close>

record encoding_json =
  marshalEngines :: "Engines \<Rightarrow> string"
  marshalStrings :: "string list \<Rightarrow> string"
  unmarshalEngines :: "string \<Rightarrow> Engines"
  unmarshalStrings :: "string \<Rightarrow> string list"

text \<open>What a Go call does: it returns, or it panics (a nil pointer is dereferenced).\<close>

datatype 'a outcome = Returns 'a | Panics string

definition nilDereference :: string where
  "nilDereference = ''runtime error: invalid memory address or nil pointer dereference''"

section \<open>Conversions between the row and the record\<close>

text \<open>\<^verbatim>\<open>ToDBExtension\<close>; \<^verbatim>\<open>CreatedAt\<close> and \<^verbatim>\<open>UpdatedAt\<close> are left at the zero time.\<close>

definition zeroTime :: int where
  "zeroTime = 0"

definition ToDBExtension :: "encoding_json \<Rightarrow> Extension \<Rightarrow> ExtensionDB" where
  "ToDBExtension J ext =
     \<lparr> db_ID = ID ext,
       db_Name = Name ext,
       db_DisplayName = DisplayName ext,
       db_Description = Description ext,
       db_Version = Version ext,
       db_Publisher = Publisher ext,
       db_Engines = marshalEngines J (Engines ext),
       db_Categories = marshalStrings J (Categories ext),
       db_Tags = marshalStrings J (Tags ext),
       db_Icon = Icon ext,
       db_Repository = Repository ext,
       db_Homepage = Homepage ext,
       db_Bugs = Bugs ext,
       db_License = License ext,
       db_FileSize = FileSize ext,
       db_LastUpdated = LastUpdated ext,
       db_FilePath = FilePath ext,
       db_CreatedAt = zeroTime,
       db_UpdatedAt = zeroTime,
       db_Verified = Verified ext,
       db_AverageRating = AverageRating ext,
       db_ReviewCount = ReviewCount ext,
       db_DownloadCount = DownloadCount ext,
       db_Namespace = Namespace ext,
       db_ExtensionID = ExtensionID ext,
       db_ShortDescription = ShortDescription ext,
       db_PublishedDate = PublishedDate ext,
       db_ReleaseDate = ReleaseDate ext,
       db_PreRelease = PreRelease ext,
       db_Deprecated = Deprecated ext,
       db_TargetPlatform = TargetPlatform ext,
       db_ReadmeContent = ReadmeContent ext \<rparr>"

text \<open>The body of \<^verbatim>\<open>ToExtension\<close>, for a pointer that is not nil.\<close>

definition toExtension :: "encoding_json \<Rightarrow> ExtensionDB \<Rightarrow> Extension" where
  "toExtension J dbExt =
     \<lparr> ID = db_ID dbExt,
       Name = db_Name dbExt,
       DisplayName = db_DisplayName dbExt,
       Description = db_Description dbExt,
       Version = db_Version dbExt,
       Publisher = db_Publisher dbExt,
       Engines = unmarshalEngines J (db_Engines dbExt),
       Categories = unmarshalStrings J (db_Categories dbExt),
       Tags = unmarshalStrings J (db_Tags dbExt),
       Icon = db_Icon dbExt,
       Repository = db_Repository dbExt,
       Homepage = db_Homepage dbExt,
       Bugs = db_Bugs dbExt,
       License = db_License dbExt,
       FileSize = db_FileSize dbExt,
       LastUpdated = db_LastUpdated dbExt,
       FilePath = db_FilePath dbExt,
       Verified = db_Verified dbExt,
       AverageRating = db_AverageRating dbExt,
       ReviewCount = db_ReviewCount dbExt,
       DownloadCount = db_DownloadCount dbExt,
       Namespace = db_Namespace dbExt,
       ExtensionID = db_ExtensionID dbExt,
       ShortDescription = db_ShortDescription dbExt,
       PublishedDate = db_PublishedDate dbExt,
       ReleaseDate = db_ReleaseDate dbExt,
       PreRelease = db_PreRelease dbExt,
       Deprecated = db_Deprecated dbExt,
       TargetPlatform = db_TargetPlatform dbExt,
       ReadmeContent = db_ReadmeContent dbExt \<rparr>"

text \<open>
  \<^verbatim>\<open>ToExtension(dbExt *ExtensionDB)\<close>: the pointer is read at once
  (\<^verbatim>\<open>dbExt.Engines\<close>) with no nil check, so a nil pointer panics.
\<close>

definition ToExtension :: "encoding_json \<Rightarrow> ExtensionDB option \<Rightarrow> Extension outcome" where
  "ToExtension J p =
     (case p of
        None \<Rightarrow> Panics nilDereference
      | Some dbExt \<Rightarrow> Returns (toExtension J dbExt))"

text \<open>\<^verbatim>\<open>ToExtensionSlice\<close>: every element is the address of a loop variable, never nil.\<close>

definition ToExtensionSlice :: "encoding_json \<Rightarrow> ExtensionDB list \<Rightarrow> Extension option list" where
  "ToExtensionSlice J dbExtensions = map (\<lambda>dbExt. Some (toExtension J dbExt)) dbExtensions"

section \<open>The catalog (package database, the database/sql version)\<close>

text \<open>
  The table \<^verbatim>\<open>extensions\<close> is the list of its rows; \<^verbatim>\<open>id\<close> is its primary key. \<open>fault\<close> is
  the error every statement gets when the connection cannot serve it (a closed or unreadable
  database file); \<open>sqlLike\<close> is the engine's \<^verbatim>\<open>LIKE\<close> operator, pattern first.
  \<open>sqlOrderBy\<close> is the engine's answer to \<^verbatim>\<open>ORDER BY last_updated DESC\<close>: the selected
  rows in the order in which it returns them. The engine compares the stored text of the
  column and orders rows of equal keys as it likes (and the gorm version of the package
  asks for no order at all), so the order is not computed here.
\<close>

datatype dberror = DriverError string | ErrRecordNotFound

record Database =
  rows :: "ExtensionDB list"
  fault :: "dberror option"
  sqlLike :: "string \<Rightarrow> string \<Rightarrow> bool"
  sqlOrderBy :: "ExtensionDB list \<Rightarrow> ExtensionDB list"

text \<open>
  \<^verbatim>\<open>INSERT OR REPLACE INTO extensions (...) VALUES (...)\<close> with all 32 columns bound from
  \<open>ext\<close>: the row holding the same primary key is deleted and the new row is inserted.
  The result is the returned \<^verbatim>\<open>error\<close> (\<open>None\<close> is nil) and the database afterwards.
\<close>

definition UpsertExtension :: "Database \<Rightarrow> ExtensionDB \<Rightarrow> dberror option \<times> Database" where
  "UpsertExtension d ext =
     (case fault d of
        Some err \<Rightarrow> (Some err, d)
      | None \<Rightarrow> (None, d\<lparr>rows := [r \<leftarrow> rows d. db_ID r \<noteq> db_ID ext] @ [ext]\<rparr>))"

text \<open>
  \<^verbatim>\<open>SELECT * FROM extensions WHERE id = ?\<close>, scanned into one row. \<^verbatim>\<open>sql.ErrNoRows\<close> is
  turned into \<^verbatim>\<open>return nil, nil\<close>: \<open>Inr None\<close>.
\<close>

definition GetExtensionByID :: "Database \<Rightarrow> string \<Rightarrow> dberror + ExtensionDB option" where
  "GetExtensionByID d id' =
     (case fault d of
        Some err \<Rightarrow> Inl err
      | None \<Rightarrow>
          (case find (\<lambda>r. db_ID r = id') (rows d) of
             None \<Rightarrow> Inr None
           | Some ext \<Rightarrow> Inr (Some ext)))"

text \<open>
  The other version of the package (gorm): \<^verbatim>\<open>First\<close> reports an absent row as the error
  \<^verbatim>\<open>ErrRecordNotFound\<close>, and the function returns \<^verbatim>\<open>nil, result.Error\<close>.
\<close>

definition GetExtensionByID_gorm :: "Database \<Rightarrow> string \<Rightarrow> dberror + ExtensionDB option" where
  "GetExtensionByID_gorm d id' =
     (case fault d of
        Some err \<Rightarrow> Inl err
      | None \<Rightarrow>
          (case find (\<lambda>r. db_ID r = id') (rows d) of
             None \<Rightarrow> Inl ErrRecordNotFound
           | Some ext \<Rightarrow> Inr (Some ext)))"

text \<open>
  \<^verbatim>\<open>LIMIT ? OFFSET ?\<close> on the ordered rows. A negative \<^verbatim>\<open>LIMIT\<close> is no limit and a
  negative \<^verbatim>\<open>OFFSET\<close> is 0, as in SQLite.
\<close>

definition limitOffset :: "int \<Rightarrow> int \<Rightarrow> 'a list \<Rightarrow> 'a list" where
  "limitOffset limit offset rs =
     (let skipped = drop (nat offset) rs
      in if limit < 0 then skipped else take (nat limit) skipped)"

definition GetAllExtensions :: "Database \<Rightarrow> int \<Rightarrow> int \<Rightarrow> dberror + (ExtensionDB list \<times> int)" where
  "GetAllExtensions d page limit =
     (case fault d of
        Some err \<Rightarrow> Inl err
      | None \<Rightarrow>
          (let total' = int (length (rows d));
               offset = (page - 1) * limit
           in Inr (limitOffset limit offset (sqlOrderBy d (rows d)), total')))"

definition SearchExtensions ::
  "Database \<Rightarrow> string \<Rightarrow> int \<Rightarrow> int \<Rightarrow> dberror + (ExtensionDB list \<times> int)" where
  "SearchExtensions d query page limit =
     (case fault d of
        Some err \<Rightarrow> Inl err
      | None \<Rightarrow>
          (let searchPattern = ''%'' @ query @ ''%'';
               hits = [r \<leftarrow> rows d.
                         sqlLike d searchPattern (db_Name r) \<or>
                         sqlLike d searchPattern (db_DisplayName r) \<or>
                         sqlLike d searchPattern (db_Description r) \<or>
                         sqlLike d searchPattern (db_Publisher r)];
               total' = int (length hits);
               offset = (page - 1) * limit
           in Inr (limitOffset limit offset (sqlOrderBy d hits), total')))"

section \<open>The extension manager\<close>

definition maxExtensionsLimit :: int where
  "maxExtensionsLimit = 10000"

definition maxSearchLimit :: int where
  "maxSearchLimit = 1000"

record Manager =
  directory :: string
  db :: Database

definition GetAll :: "encoding_json \<Rightarrow> Manager \<Rightarrow> Extension option list" where
  "GetAll J m =
     (case GetAllExtensions (db m) 1 maxExtensionsLimit of
        Inl err \<Rightarrow> []
      | Inr (extensions, _) \<Rightarrow> ToExtensionSlice J extensions)"

text \<open>
  \<^verbatim>\<open>GetByID\<close>: only \<^verbatim>\<open>err != nil\<close> is checked before \<^verbatim>\<open>ToExtension(dbExt)\<close>. The result
  pair is \<^verbatim>\<open>(*models.Extension, bool)\<close>.
\<close>

definition GetByID :: "encoding_json \<Rightarrow> Manager \<Rightarrow> string \<Rightarrow> (Extension option \<times> bool) outcome" where
  "GetByID J m id' =
     (case GetExtensionByID (db m) id' of
        Inl err \<Rightarrow> Returns (None, False)
      | Inr dbExt \<Rightarrow>
          (case ToExtension J dbExt of
             Panics msg \<Rightarrow> Panics msg
           | Returns ext \<Rightarrow> Returns (Some ext, True)))"

text \<open>The same method over the gorm version of the lookup.\<close>

definition GetByID_gorm :: "encoding_json \<Rightarrow> Manager \<Rightarrow> string \<Rightarrow> (Extension option \<times> bool) outcome" where
  "GetByID_gorm J m id' =
     (case GetExtensionByID_gorm (db m) id' of
        Inl err \<Rightarrow> Returns (None, False)
      | Inr dbExt \<Rightarrow>
          (case ToExtension J dbExt of
             Panics msg \<Rightarrow> Panics msg
           | Returns ext \<Rightarrow> Returns (Some ext, True)))"

definition Search :: "encoding_json \<Rightarrow> Manager \<Rightarrow> string \<Rightarrow> Extension option list" where
  "Search J m query =
     (case SearchExtensions (db m) query 1 maxSearchLimit of
        Inl err \<Rightarrow> []
      | Inr (extensions, _) \<Rightarrow> ToExtensionSlice J extensions)"

section \<open>Strings and paths\<close>

text \<open>\<^verbatim>\<open>strings.Contains\<close>, \<^verbatim>\<open>strings.HasPrefix\<close>, \<^verbatim>\<open>strings.TrimSuffix\<close>.\<close>

definition Contains :: "string \<Rightarrow> string \<Rightarrow> bool" where
  "Contains s substr = sublist substr s"

definition HasPrefix :: "string \<Rightarrow> string \<Rightarrow> bool" where
  "HasPrefix s pre = prefix pre s"

definition TrimSuffix :: "string \<Rightarrow> string \<Rightarrow> string" where
  "TrimSuffix s suf = (if suffix suf s then take (length s - length suf) s else s)"

text \<open>
  \<^verbatim>\<open>filepath.Base\<close> with the separator \<^verbatim>\<open>/\<close>: trailing separators are stripped, the last
  element is returned; the empty path gives \<^verbatim>\<open>.\<close> and a path of separators only gives \<^verbatim>\<open>/\<close>.
\<close>

definition filepath_Base :: "string \<Rightarrow> string" where
  "filepath_Base path =
     (if path = [] then ''.''
      else (let stripped = rev (dropWhile (\<lambda>c. c = CHR ''/'') (rev path))
            in if stripped = [] then ''/''
               else rev (takeWhile (\<lambda>c. c \<noteq> CHR ''/'') (rev stripped))))"

text \<open>
  \<^verbatim>\<open>filepath.Ext\<close>: the suffix from the last dot of the last path element, empty when that
  element has no dot.
\<close>

definition filepath_Ext :: "string \<Rightarrow> string" where
  "filepath_Ext path =
     (let notStop = (\<lambda>c. c \<noteq> CHR ''/'' \<and> c \<noteq> CHR ''.'')
      in case dropWhile notStop (rev path) of
           c # _ \<Rightarrow> (if c = CHR ''.'' then CHR ''.'' # rev (takeWhile notStop (rev path)) else [])
         | [] \<Rightarrow> [])"

text \<open>\<^verbatim>\<open>strings.ToLower\<close> on the ASCII letters.\<close>

definition toLowerChar :: "char \<Rightarrow> char" where
  "toLowerChar c =
     (let n = (of_char c :: nat) in if 65 \<le> n \<and> n \<le> 90 then char_of (n + 32) else c)"

definition ToLower :: "string \<Rightarrow> string" where
  "ToLower s = map toLowerChar s"

section \<open>Reading an entry of a .vsix archive\<close>

text \<open>
  An entry of the archive's file table: its name, and its bytes when it can be opened and
  read. \<open>zip_OpenReader\<close> is the file system seen through \<^verbatim>\<open>zip.OpenReader\<close>: \<open>None\<close> when
  the path cannot be opened as an archive.
\<close>

record zfile =
  zName :: string
  zBytes :: "string option"

type_synonym zipfs = "string \<Rightarrow> zfile list option"

datatype vsixerror =
    FailedToOpenVsix
  | FailedToReadFile string
  | FileNotFoundInArchive string

definition extractFileFromVSIX :: "zipfs \<Rightarrow> string \<Rightarrow> string \<Rightarrow> vsixerror + string" where
  "extractFileFromVSIX zip_OpenReader vsixPath filePath =
     (case zip_OpenReader vsixPath of
        None \<Rightarrow> Inl FailedToOpenVsix
      | Some files \<Rightarrow>
          (case find (\<lambda>file. zName file = filePath) files of
             None \<Rightarrow> Inl (FileNotFoundInArchive filePath)
           | Some file \<Rightarrow>
               (case zBytes file of
                  None \<Rightarrow> Inl (FailedToReadFile filePath)
                | Some content \<Rightarrow> Inr content)))"

section \<open>The gallery server\<close>

record Server =
  extManager :: Manager
  baseURL :: string

definition jsonContentType :: string where
  "jsonContentType = ''application/json''"

definition xmlContentType :: string where
  "xmlContentType = ''application/xml''"

definition markdownContentType :: string where
  "markdownContentType = ''text/markdown''"

definition octetStreamContentType :: string where
  "octetStreamContentType = ''application/octet-stream''"

definition HTTPAPIVersion :: string where
  "HTTPAPIVersion = ''application/json;api-version=3.0-preview.1''"

definition packageJSONPath :: string where
  "packageJSONPath = ''extension/package.json''"

definition vsixManifestPath :: string where
  "vsixManifestPath = ''extension.vsixmanifest''"

definition readmePaths :: string where
  "readmePaths = ''extension/README.md''"

definition StatusOK :: nat where
  "StatusOK = 200"

definition StatusBadRequest :: nat where
  "StatusBadRequest = 400"

definition StatusNotFound :: nat where
  "StatusNotFound = 404"

text \<open>\<^verbatim>\<open>http.StatusText\<close> on the codes the server writes.\<close>

definition StatusText :: "nat \<Rightarrow> string" where
  "StatusText code =
     (if code = 200 then ''OK''
      else if code = 400 then ''Bad Request''
      else if code = 404 then ''Not Found''
      else if code = 405 then ''Method Not Allowed''
      else if code = 500 then ''Internal Server Error''
      else [])"

text \<open>
  What a handler leaves on the wire: \<open>Reply\<close> is the status, the \<^verbatim>\<open>Content-Type\<close> header
  and the body it wrote itself; \<open>ServeFile\<close> is the hand-over to \<^verbatim>\<open>http.ServeFile\<close>, with
  the \<^verbatim>\<open>Content-Type\<close> and \<^verbatim>\<open>Content-Disposition\<close> headers set before and the path.
\<close>

datatype body = NoBody | JSONBody goval | BytesBody string

datatype response =
    Reply nat string body
  | ServeFile string string string

text \<open>
  \<^verbatim>\<open>writeJSON\<close>; \<open>hdr\<close> is the \<^verbatim>\<open>Content-Type\<close> header already set (empty when none).
  Every value the handlers pass can be encoded, so the encoder's error branch is not taken.
\<close>

definition writeJSON :: "string \<Rightarrow> nat \<Rightarrow> goval \<Rightarrow> response" where
  "writeJSON hdr status' data =
     Reply status'
       (if hdr = [] \<or> \<not> Contains hdr ''api-version'' then jsonContentType else hdr)
       (JSONBody data)"

definition writeError :: "string \<Rightarrow> nat \<Rightarrow> string \<Rightarrow> response" where
  "writeError hdr status' message =
     writeJSON hdr status'
       (VMap [(''error'', VString (StatusText status')),
              (''message'', VString message),
              (''status'', VInt (int status'))])"

subsection \<open>Response assembly\<close>

text \<open>
  \<^verbatim>\<open>generateUUID\<close> reads \<^verbatim>\<open>crypto/rand\<close>: \<open>rnd\<close> is the sequence of identifiers it gives,
  and the number of the next one is passed along.
\<close>

definition assetBase :: "Server \<Rightarrow> Extension \<Rightarrow> string" where
  "assetBase s ext =
     baseURL s @ ''/_assets/'' @ Publisher ext @ ''/'' @ Name ext @ ''/'' @ Version ext"

definition galleryBase :: "Server \<Rightarrow> Extension \<Rightarrow> string" where
  "galleryBase s ext =
     baseURL s @ ''/_gallery/'' @ Publisher ext @ ''/'' @ Name ext @ ''/'' @ Version ext"

definition fileEntry :: "string \<Rightarrow> string \<Rightarrow> goval" where
  "fileEntry assetType source = VMap [(''assetType'', VString assetType), (''source'', VString source)]"

definition property :: "string \<Rightarrow> string \<Rightarrow> goval" where
  "property k v = VMap [(''key'', VString k), (''value'', VString v)]"

definition createExtensionInfo :: "Server \<Rightarrow> (nat \<Rightarrow> string) \<Rightarrow> nat \<Rightarrow> Extension \<Rightarrow> goval \<times> nat" where
  "createExtensionInfo s rnd n ext =
     (let (extensionId, n1) = (if ID ext = [] then (rnd n, Suc n) else (ID ext, n));
          files =
            [fileEntry ''Microsoft.VisualStudio.Code.Manifest''
               (galleryBase s ext @ ''/file/package.json''),
             fileEntry ''Microsoft.VisualStudio.Services.VSIXPackage''
               (galleryBase s ext @ ''/file/'' @ filepath_Base (FilePath ext)),
             fileEntry ''Microsoft.VisualStudio.Services.VsixManifest''
               (galleryBase s ext @ ''/file/extension.vsixmanifest''),
             fileEntry ''Microsoft.VisualStudio.Services.VsixSignature''
               (galleryBase s ext @ ''/file/''
                  @ TrimSuffix (filepath_Base (FilePath ext)) ''.vsix'' @ ''.sigzip''),
             fileEntry ''Microsoft.VisualStudio.Services.PublicKey''
               (baseURL s @ ''/_gallery/-/public-key/'' @ rnd n1)]
            @ (if ReadmeContent ext \<noteq> [] \<or> Description ext \<noteq> [] then
                 [fileEntry ''Microsoft.VisualStudio.Services.Content.Details''
                    (assetBase s ext @ ''/Microsoft.VisualStudio.Services.Content.Details'')]
               else [])
            @ (if License ext \<noteq> [] then
                 [fileEntry ''Microsoft.VisualStudio.Services.Content.License''
                    (assetBase s ext @ ''/file/LICENSE.md'')]
               else [])
            @ (if Icon ext \<noteq> [] then
                 [fileEntry ''Microsoft.VisualStudio.Services.Icons.Default''
                    (assetBase s ext @ ''/file/'' @ filepath_Base (Icon ext))]
               else []);
          version =
            VMap [(''version'', VString (Version ext)),
                  (''lastUpdated'', VTime (LastUpdated ext)),
                  (''assetUri'', VString (assetBase s ext)),
                  (''fallbackAssetUri'', VString (assetBase s ext)),
                  (''targetPlatform'', VString ''universal''),
                  (''files'', VSlice files),
                  (''properties'', VSlice
                     [property ''Microsoft.VisualStudio.Services.Branding.Color'' [],
                      property ''Microsoft.VisualStudio.Services.Branding.Theme'' [],
                      property ''Microsoft.VisualStudio.Services.Links.Source'' (Repository ext),
                      property ''Microsoft.VisualStudio.Code.SponsorLink'' [],
                      property ''Microsoft.VisualStudio.Code.Engine'' (VSCode (Engines ext)),
                      property ''Microsoft.VisualStudio.Code.ExtensionDependencies'' [],
                      property ''Microsoft.VisualStudio.Code.ExtensionPack'' [],
                      property ''Microsoft.VisualStudio.Code.LocalizedLanguages'' [],
                      property ''Microsoft.VisualStudio.Code.PreRelease'' ''false''])]
      in (VMap [(''extensionId'', VString extensionId),
                (''extensionName'', VString (Name ext)),
                (''displayName'', VString (DisplayName ext)),
                (''shortDescription'', VString (Description ext)),
                (''publisher'', VMap
                   [(''displayName'', VString (Publisher ext)),
                    (''publisherId'', VString (rnd (Suc n1))),
                    (''publisherName'', VString (Publisher ext)),
                    (''domain'', VNil),
                    (''isDomainVerified'', VNil)]),
                (''versions'', VSlice [version]),
                (''statistics'', VSlice
                   [VMap [(''statisticName'', VString ''install''), (''value'', VFloat 0)],
                    VMap [(''statisticName'', VString ''ratingcount''), (''value'', VFloat 0)]]),
                (''tags'', VSlice (map VString (Tags ext))),
                (''releaseDate'', VTime (LastUpdated ext)),
                (''publishedDate'', VTime (LastUpdated ext)),
                (''lastUpdated'', VTime (LastUpdated ext)),
                (''categories'', VSlice (map VString (Categories ext))),
                (''flags'', VString [])],
          Suc (Suc n1)))"

text \<open>
  The two \<^verbatim>\<open>for _, ext := range ...\<close> loops of the handler: a nil element is skipped, a
  nil \<^verbatim>\<open>extensionInfo\<close> is not appended.
\<close>

fun appendInfos ::
  "Server \<Rightarrow> (nat \<Rightarrow> string) \<Rightarrow> Extension option list \<Rightarrow> goval list \<Rightarrow> nat \<Rightarrow> goval list \<times> nat" where
  "appendInfos s rnd [] results n = (results, n)"
| "appendInfos s rnd (None # exts) results n = appendInfos s rnd exts results n"
| "appendInfos s rnd (Some ext # exts) results n =
     (case createExtensionInfo s rnd n ext of
        (extensionInfo, n') \<Rightarrow>
          appendInfos s rnd exts
            (if extensionInfo \<noteq> VNil then results @ [extensionInfo] else results) n')"

definition queryResponse :: "goval list \<Rightarrow> goval" where
  "queryResponse results =
     VMap [(''results'', VSlice
        [VMap [(''extensions'', VSlice results),
               (''resultMetadata'', VSlice
                  [VMap [(''metadataType'', VString ''ResultCount''),
                         (''metadataItems'', VSlice
                            [VMap [(''name'', VString ''TotalCount''),
                                   (''count'', VInt (int (length results)))]])]])]])]"

subsection \<open>POST /_apis/public/gallery/extensionquery\<close>

text \<open>
  \<^verbatim>\<open>json\<close> decoding into a \<^verbatim>\<open>map[string]interface{}\<close>: \<open>None\<close> stands for a decode
  error. A text that is not JSON fails; an object decodes to its map; \<^verbatim>\<open>null\<close> leaves the
  map nil, which reads as the empty map; every other value fails.
\<close>

definition decodeMap :: "goval option \<Rightarrow> (string \<times> goval) list option" where
  "decodeMap b =
     (case b of
        Some (VMap query) \<Rightarrow> Some query
      | Some VNil \<Rightarrow> Some []
      | _ \<Rightarrow> None)"

text \<open>
  The request: its method and its body as the JSON decoder reads it, \<open>None\<close> when the body
  is not JSON.
\<close>

record request =
  reqMethod :: string
  reqBody :: "goval option"

text \<open>
  The second half of the handler, from the decoded pair to the list \<^verbatim>\<open>results\<close>.
\<close>

definition resolveQuery ::
  "encoding_json \<Rightarrow> Server \<Rightarrow> (nat \<Rightarrow> string) \<Rightarrow> string \<times> string \<Rightarrow> goval list outcome" where
  "resolveQuery J s rnd decoded =
     (case decoded of (searchQuery, extensionId) \<Rightarrow>
        if extensionId \<noteq> [] then
          (case GetByID J (extManager s) extensionId of
             Panics msg \<Rightarrow> Panics msg
           | Returns (ext, found) \<Rightarrow>
               (case ext of
                  Some e \<Rightarrow>
                    (if found then
                       (case createExtensionInfo s rnd 0 e of
                          (extensionInfo, _) \<Rightarrow>
                            Returns (if extensionInfo \<noteq> VNil then [extensionInfo] else []))
                     else Returns [])
                | None \<Rightarrow> Returns []))
        else if searchQuery \<noteq> [] then
          Returns (fst (appendInfos s rnd (Search J (extManager s) searchQuery) [] 0))
        else
          Returns (fst (appendInfos s rnd (GetAll J (extManager s)) [] 0)))"

definition handleExtensionQuery ::
  "encoding_json \<Rightarrow> Server \<Rightarrow> (nat \<Rightarrow> string) \<Rightarrow> request \<Rightarrow> response outcome" where
  "handleExtensionQuery J s rnd r =
     (if reqMethod r = ''OPTIONS'' then Returns (Reply StatusOK [] NoBody)
      else
        (case decodeMap (reqBody r) of
           None \<Rightarrow> Returns (writeError [] StatusBadRequest ''Invalid JSON format'')
         | Some query \<Rightarrow>
             (case resolveQuery J s rnd (decodeQuery query) of
                Panics msg \<Rightarrow> Panics msg
              | Returns results \<Rightarrow>
                  Returns (writeJSON HTTPAPIVersion StatusOK (queryResponse results)))))"

subsection \<open>GET /_assets/{publisher}/{name}/{version}/{assetType}\<close>

text \<open>
  The content handlers. Each takes the archive reader and the record and gives the response;
  a handler that writes without \<^verbatim>\<open>WriteHeader\<close> answers with status 200.
\<close>

definition servePackageJSON :: "zipfs \<Rightarrow> Extension \<Rightarrow> response" where
  "servePackageJSON zfs ext =
     (case extractFileFromVSIX zfs (FilePath ext) packageJSONPath of
        Inl err \<Rightarrow>
          Reply StatusOK ''application/json''
            (JSONBody (VMap
               [(''name'', VString (Name ext)),
                (''displayName'', VString (DisplayName ext)),
                (''description'', VString (Description ext)),
                (''version'', VString (Version ext)),
                (''publisher'', VString (Publisher ext)),
                (''engines'', VMap [(''vscode'', VString (VSCode (Engines ext)))]),
                (''categories'', VSlice (map VString (Categories ext))),
                (''tags'', VSlice (map VString (Tags ext))),
                (''icon'', VString (Icon ext)),
                (''repository'', VString (Repository ext)),
                (''homepage'', VString (Homepage ext)),
                (''bugs'', VString (Bugs ext)),
                (''license'', VString (License ext))]))
      | Inr packageJSON \<Rightarrow> Reply StatusOK ''application/json'' (BytesBody packageJSON))"

definition serveVSIXFile :: "Extension \<Rightarrow> response" where
  "serveVSIXFile ext =
     ServeFile octetStreamContentType
       (''attachment; filename=\"'' @ filepath_Base (FilePath ext) @ ''\"'')
       (FilePath ext)"

definition basicManifest :: "Extension \<Rightarrow> string" where
  "basicManifest ext =
     ''<?xml version=\"1.0\" encoding=\"utf-8\"?>'' @ [CHR 0x0A]
     @ ''<PackageManifest Version=\"2.0.0\" xmlns=\"http://schemas.microsoft.com/developer/vsx-schema/2011\">'' @ [CHR 0x0A]
     @ ''  <Metadata>'' @ [CHR 0x0A]
     @ ''    <Identity Id=\"'' @ ID ext @ ''\" Version=\"'' @ Version ext
     @ ''\" Publisher=\"'' @ Publisher ext @ ''\" Language=\"en-US\" />'' @ [CHR 0x0A]
     @ ''    <DisplayName>'' @ DisplayName ext @ ''</DisplayName>'' @ [CHR 0x0A]
     @ ''    <Description>'' @ Description ext @ ''</Description>'' @ [CHR 0x0A]
     @ ''  </Metadata>'' @ [CHR 0x0A]
     @ ''</PackageManifest>''"

definition serveVSIXManifest :: "zipfs \<Rightarrow> Extension \<Rightarrow> response" where
  "serveVSIXManifest zfs ext =
     (case extractFileFromVSIX zfs (FilePath ext) vsixManifestPath of
        Inl err \<Rightarrow> Reply StatusOK xmlContentType (BytesBody (basicManifest ext))
      | Inr manifest \<Rightarrow> Reply StatusOK xmlContentType (BytesBody manifest))"

definition serveEmptySignature :: response where
  "serveEmptySignature = Reply StatusOK octetStreamContentType (BytesBody [])"

definition serveEmptyPublicKey :: response where
  "serveEmptyPublicKey = Reply StatusOK octetStreamContentType (BytesBody [])"

definition publisherAndVersion :: "Extension \<Rightarrow> string" where
  "publisherAndVersion ext =
     [CHR 0x0A, CHR 0x0A] @ ''**Publisher:** '' @ Publisher ext @ [CHR 0x0A]
     @ ''**Version:** '' @ Version ext"

definition serveREADME :: "zipfs \<Rightarrow> Extension \<Rightarrow> response" where
  "serveREADME zfs ext =
     (if ReadmeContent ext \<noteq> [] then
        Reply StatusOK markdownContentType (BytesBody (ReadmeContent ext))
      else
        (case extractFileFromVSIX zfs (FilePath ext) readmePaths of
           Inl err \<Rightarrow>
             Reply StatusOK markdownContentType
               (BytesBody (''# '' @ DisplayName ext @ [CHR 0x0A, CHR 0x0A]
                  @ ''Description for this extension is not available.''
                  @ publisherAndVersion ext))
         | Inr readme \<Rightarrow> Reply StatusOK markdownContentType (BytesBody readme)))"

definition serveLICENSE :: "zipfs \<Rightarrow> Extension \<Rightarrow> response" where
  "serveLICENSE zfs ext =
     (case extractFileFromVSIX zfs (FilePath ext) ''extension/LICENSE.md'' of
        Inl err \<Rightarrow>
          Reply StatusOK markdownContentType
            (BytesBody (''# License'' @ [CHR 0x0A, CHR 0x0A]
               @ ''License information for extension **'' @ DisplayName ext
               @ ''** is not available.'' @ publisherAndVersion ext))
      | Inr license \<Rightarrow> Reply StatusOK markdownContentType (BytesBody license))"

definition iconMimeType :: "string \<Rightarrow> string" where
  "iconMimeType fileExt =
     (let e = ToLower fileExt
      in if e = ''.png'' then ''image/png''
         else if e = ''.jpg'' \<or> e = ''.jpeg'' then ''image/jpeg''
         else if e = ''.gif'' then ''image/gif''
         else if e = ''.svg'' then ''image/svg+xml''
         else ''image/png'')"

definition serveIcon :: "zipfs \<Rightarrow> Extension \<Rightarrow> response" where
  "serveIcon zfs ext =
     (if Icon ext = [] then
        Reply StatusOK ''text/plain''
          (BytesBody (''Icon for extension '' @ DisplayName ext @ '' is not available''))
      else
        (case extractFileFromVSIX zfs (FilePath ext) (''extension/'' @ Icon ext) of
           Inl err \<Rightarrow>
             Reply StatusOK ''text/plain''
               (BytesBody (''Icon for extension '' @ DisplayName ext @ '' not found''))
         | Inr icon \<Rightarrow>
             Reply StatusOK (iconMimeType (filepath_Ext (Icon ext))) (BytesBody icon)))"

text \<open>The \<^verbatim>\<open>switch assetType\<close> of the handler.\<close>

definition serveAsset :: "zipfs \<Rightarrow> Extension \<Rightarrow> string \<Rightarrow> response" where
  "serveAsset zfs ext assetType =
     (if assetType = ''Microsoft.VisualStudio.Code.Manifest'' then servePackageJSON zfs ext
      else if assetType = ''Microsoft.VisualStudio.Services.VSIXPackage'' then serveVSIXFile ext
      else if assetType = ''Microsoft.VisualStudio.Services.VsixManifest'' then serveVSIXManifest zfs ext
      else if assetType = ''Microsoft.VisualStudio.Services.VsixSignature'' then serveEmptySignature
      else if assetType = ''Microsoft.VisualStudio.Services.PublicKey'' then serveEmptyPublicKey
      else if assetType = ''Microsoft.VisualStudio.Services.Content.Details'' then serveREADME zfs ext
      else if assetType = ''Microsoft.VisualStudio.Services.Content.License'' then serveLICENSE zfs ext
      else if assetType = ''Microsoft.VisualStudio.Services.Icons.Default'' then serveIcon zfs ext
      else writeError [] StatusNotFound ''Asset type not supported'')"

text \<open>
  The handler; the four strings are the route variables. \<^verbatim>\<open>ext.Version\<close> on a nil
  \<open>ext\<close> would panic.
\<close>

definition handleVSCodeAsset ::
  "encoding_json \<Rightarrow> zipfs \<Rightarrow> Server \<Rightarrow> string \<Rightarrow> string \<Rightarrow> string \<Rightarrow> string \<Rightarrow> string
     \<Rightarrow> response outcome" where
  "handleVSCodeAsset J zfs s method' publisher name version assetType =
     (if method' = ''OPTIONS'' then Returns (Reply StatusOK [] NoBody)
      else
        (let extensionID = publisher @ ''.'' @ name
         in case GetByID J (extManager s) extensionID of
              Panics msg \<Rightarrow> Panics msg
            | Returns (ext, exists) \<Rightarrow>
                (if \<not> exists then Returns (writeError [] StatusNotFound ''Extension not found'')
                 else
                   (case ext of
                      None \<Rightarrow> Panics nilDereference
                    | Some e \<Rightarrow>
                        (if Version e \<noteq> version then
                           Returns (writeError [] StatusNotFound ''Version not found'')
                         else Returns (serveAsset zfs e assetType))))))"

section \<open>Reading a query response, and sample values\<close>

text \<open>
  The two places of the response envelope a client reads: \<^verbatim>\<open>results[0].extensions\<close> and
  the \<^verbatim>\<open>count\<close> of \<^verbatim>\<open>results[0].resultMetadata[0].metadataItems[0]\<close>. A handler that did
  not return a JSON reply of that shape has no extensions and no count.
\<close>

definition firstResult :: "response outcome \<Rightarrow> (string \<times> goval) list" where
  "firstResult out =
     (case out of
        Returns (Reply _ _ (JSONBody (VMap envelope))) \<Rightarrow>
          (case index envelope ''results'' of
             VSlice (VMap result # _) \<Rightarrow> result
           | _ \<Rightarrow> [])
      | _ \<Rightarrow> [])"

definition extensionsOf :: "response outcome \<Rightarrow> goval list" where
  "extensionsOf out = (case index (firstResult out) ''extensions'' of VSlice exts \<Rightarrow> exts | _ \<Rightarrow> [])"

definition totalCountOf :: "response outcome \<Rightarrow> int option" where
  "totalCountOf out =
     (case index (firstResult out) ''resultMetadata'' of
        VSlice (VMap metadata # _) \<Rightarrow>
          (case index metadata ''metadataItems'' of
             VSlice (VMap item # _) \<Rightarrow>
               (case index item ''count'' of VInt c \<Rightarrow> Some c | _ \<Rightarrow> None)
           | _ \<Rightarrow> None)
      | _ \<Rightarrow> None)"

definition statusOf :: "response outcome \<Rightarrow> nat option" where
  "statusOf out = (case out of Returns (Reply code _ _) \<Rightarrow> Some code | _ \<Rightarrow> None)"

text \<open>
  The criteria of the first filter, and the bodies with no usable criterion: no non-empty
  top-level query string, and no criterion tagged 10 or 4 in the first filter.
\<close>

definition firstFilterCriteria :: "(string \<times> goval) list \<Rightarrow> goval list" where
  "firstFilterCriteria query =
     (case index query ''filters'' of
        VSlice (VMap flt # _) \<Rightarrow>
          (case index flt ''criteria'' of VSlice criteria \<Rightarrow> criteria | _ \<Rightarrow> [])
      | _ \<Rightarrow> [])"

definition hasTag :: "rat \<Rightarrow> goval \<Rightarrow> bool" where
  "hasTag t c = (case c of VMap criterionMap \<Rightarrow> index criterionMap ''filterType'' = VFloat t | _ \<Rightarrow> False)"

definition noUsableCriteria :: "(string \<times> goval) list \<Rightarrow> bool" where
  "noUsableCriteria query \<longleftrightarrow>
     noTopLevelQuery query \<and> list_all (\<lambda>c. \<not> hasTag 10 c \<and> \<not> hasTag 4 c) (firstFilterCriteria query)"

text \<open>The request body \<^verbatim>\<open>{"filters":[{"criteria":[...]}]}\<close>.\<close>

definition criteriaBody :: "goval list \<Rightarrow> goval" where
  "criteriaBody criteria = VMap [(''filters'', VSlice [VMap [(''criteria'', VSlice criteria)]])]"

definition criterion :: "rat \<Rightarrow> string \<Rightarrow> goval" where
  "criterion t v = VMap [(''filterType'', VFloat t), (''value'', VString v)]"

text \<open>Sample values for the concrete instances below.\<close>

definition sampleRow :: "string \<Rightarrow> string \<Rightarrow> string \<Rightarrow> int \<Rightarrow> ExtensionDB" where
  "sampleRow publisher name version t =
     \<lparr> db_ID = publisher @ ''.'' @ name,
       db_Name = name,
       db_DisplayName = name,
       db_Description = [],
       db_Version = version,
       db_Publisher = publisher,
       db_Engines = ''{\"vscode\":\"\"}'',
       db_Categories = ''null'',
       db_Tags = ''null'',
       db_Icon = [],
       db_Repository = [],
       db_Homepage = [],
       db_Bugs = [],
       db_License = [],
       db_FileSize = 1,
       db_LastUpdated = t,
       db_FilePath = ''data/extensions/'' @ name @ ''-'' @ version @ ''.vsix'',
       db_CreatedAt = zeroTime,
       db_UpdatedAt = zeroTime,
       db_Verified = True,
       db_AverageRating = 5,
       db_ReviewCount = 100,
       db_DownloadCount = 1000,
       db_Namespace = publisher,
       db_ExtensionID = publisher @ ''.'' @ name,
       db_ShortDescription = [],
       db_PublishedDate = t,
       db_ReleaseDate = t,
       db_PreRelease = False,
       db_Deprecated = False,
       db_TargetPlatform = ''universal'',
       db_ReadmeContent = [] \<rparr>"

definition sampleJSON :: encoding_json where
  "sampleJSON =
     \<lparr> marshalEngines = (\<lambda>e. ''{\"vscode\":\"'' @ VSCode e @ ''\"}''),
       marshalStrings = (\<lambda>xs. ''null''),
       unmarshalEngines = (\<lambda>s. \<lparr> VSCode = [] \<rparr>),
       unmarshalStrings = (\<lambda>s. []) \<rparr>"

definition sampleRnd :: "nat \<Rightarrow> string" where
  "sampleRnd n = ''00000000-0000-0000-0000-000000000000''"

definition sampleDatabase :: "ExtensionDB list \<Rightarrow> Database" where
  "sampleDatabase rs = \<lparr> rows = rs, fault = None, sqlLike = (\<lambda>pat s. False), sqlOrderBy = rev \<rparr>"

definition sampleServer :: "ExtensionDB list \<Rightarrow> Server" where
  "sampleServer rs =
     \<lparr> extManager = \<lparr> directory = ''data/extensions'', db = sampleDatabase rs \<rparr>,
       baseURL = ''https://domain:8080'' \<rparr>"

text \<open>A catalog of \<open>n\<close> records with the identifiers \<^verbatim>\<open>p.\<close>, \<^verbatim>\<open>p.a\<close>, \<^verbatim>\<open>p.aa\<close>, ...\<close>

definition manyRows :: "nat \<Rightarrow> ExtensionDB list" where
  "manyRows n = map (\<lambda>k. sampleRow ''p'' (replicate k (CHR ''a'')) ''1.0.0'' (int k)) [0..<n]"

section \<open>Manifest normalization: localization (package extensions)\<close>

text \<open>\<^verbatim>\<open>strings.Trim(s, cutset)\<close>: the leading and the trailing characters of the cutset go.\<close>

definition Trim :: "string \<Rightarrow> string \<Rightarrow> string" where
  "Trim s cutset =
     rev (dropWhile (\<lambda>c. c \<in> set cutset) (rev (dropWhile (\<lambda>c. c \<in> set cutset) s)))"

definition packageNLSPath :: string where
  "packageNLSPath = ''extension/package.nls.json''"

record packageInfo =
  pkg_Name :: string
  pkg_DisplayName :: string
  pkg_Description :: string
  pkg_Version :: string
  pkg_Publisher :: string
  pkg_Engines :: Engines
  pkg_Categories :: "string list"
  pkg_Keywords :: "string list"
  pkg_Icon :: string
  pkg_Repository :: goval
  pkg_Homepage :: string
  pkg_Bugs :: goval
  pkg_License :: string

text \<open>
  The table \<^verbatim>\<open>nls\<close> built from the decoded file: a string entry is kept, an object entry
  gives its \<^verbatim>\<open>message\<close> when that is a string, every other entry is dropped.
\<close>

definition nlsOfRaw :: "(string \<times> goval) list \<Rightarrow> (string \<rightharpoonup> string)" where
  "nlsOfRaw raw key =
     (case map_of raw key of
        Some (VString v) \<Rightarrow> Some v
      | Some (VMap v) \<Rightarrow> (case index v ''message'' of VString msg \<Rightarrow> Some msg | _ \<Rightarrow> None)
      | _ \<Rightarrow> None)"

text \<open>\<^verbatim>\<open>nls[key]\<close> on a \<^verbatim>\<open>map[string]string\<close>: the empty string for an absent key.\<close>

definition nlsIndex :: "(string \<rightharpoonup> string) \<Rightarrow> string \<Rightarrow> string" where
  "nlsIndex nls key = (case nls key of None \<Rightarrow> [] | Some v \<Rightarrow> v)"

text \<open>
  \<^verbatim>\<open>readNLSData\<close> over the archive's file table; \<open>unmarshal\<close> is the JSON parser. An entry
  of the right name that cannot be read or decoded is passed over (\<^verbatim>\<open>continue\<close>); \<open>None\<close>
  is the nil map returned after the loop.
\<close>

fun readNLSData :: "(string \<Rightarrow> goval option) \<Rightarrow> zfile list \<Rightarrow> (string \<rightharpoonup> string) option" where
  "readNLSData unmarshal [] = None"
| "readNLSData unmarshal (file # files) =
     (if zName file = packageNLSPath then
        (case zBytes file of
           None \<Rightarrow> readNLSData unmarshal files
         | Some nlsBytes \<Rightarrow>
             (case decodeMap (unmarshal nlsBytes) of
                None \<Rightarrow> readNLSData unmarshal files
              | Some raw \<Rightarrow> Some (nlsOfRaw raw)))
      else readNLSData unmarshal files)"

definition replaceLocalizedStrings :: "packageInfo \<Rightarrow> (string \<rightharpoonup> string) \<Rightarrow> packageInfo" where
  "replaceLocalizedStrings pkg nls =
     (let pkg1 = (let key = Trim (pkg_DisplayName pkg) ''%''
                  in if nlsIndex nls key \<noteq> [] then pkg\<lparr>pkg_DisplayName := nlsIndex nls key\<rparr>
                     else pkg);
          pkg2 = (let key = Trim (pkg_Description pkg1) ''%''
                  in if nlsIndex nls key \<noteq> [] then pkg1\<lparr>pkg_Description := nlsIndex nls key\<rparr>
                     else pkg1)
      in pkg2)"

definition processLocalization ::
  "(string \<Rightarrow> goval option) \<Rightarrow> zfile list \<Rightarrow> packageInfo \<Rightarrow> packageInfo" where
  "processLocalization unmarshal files pkg =
     (if \<not> Contains (pkg_DisplayName pkg) ''%'' \<and> \<not> Contains (pkg_Description pkg) ''%'' then pkg
      else
        (case readNLSData unmarshal files of
           None \<Rightarrow> pkg
         | Some nlsData \<Rightarrow> replaceLocalizedStrings pkg nlsData))"

text \<open>
  The reading of the specification: the first \<^verbatim>\<open>%key%\<close> placeholder of a field is
  replaced, in place, by the non-empty message the table has for \<open>key\<close>; with no such
  message the field is left as it is.
\<close>

definition substitutePlaceholder :: "(string \<rightharpoonup> string) \<Rightarrow> string \<Rightarrow> string" where
  "substitutePlaceholder nls field =
     (case dropWhile (\<lambda>c. c \<noteq> CHR ''%'') field of
        [] \<Rightarrow> field
      | _ # rest \<Rightarrow>
          (case dropWhile (\<lambda>c. c \<noteq> CHR ''%'') rest of
             [] \<Rightarrow> field
           | _ # post \<Rightarrow>
               (case nls (takeWhile (\<lambda>c. c \<noteq> CHR ''%'') rest) of
                  None \<Rightarrow> field
                | Some msg \<Rightarrow>
                    if msg = [] then field
                    else takeWhile (\<lambda>c. c \<noteq> CHR ''%'') field @ msg @ post)))"

text \<open>
  What the code does to one field: the field, stripped of its leading and trailing
  \<^verbatim>\<open>%\<close>, is looked up as a whole, and a non-empty message replaces the whole field.
\<close>

definition localized :: "(string \<rightharpoonup> string) \<Rightarrow> string \<Rightarrow> string" where
  "localized nls field =
     (case nls (Trim field ''%'') of
        None \<Rightarrow> field
      | Some msg \<Rightarrow> if msg = [] then field else msg)"

text \<open>Sample values: a manifest, a localization file and its decoding.\<close>

definition samplePackage :: "string \<Rightarrow> string \<Rightarrow> packageInfo" where
  "samplePackage displayName description =
     \<lparr> pkg_Name = ''python'',
       pkg_DisplayName = displayName,
       pkg_Description = description,
       pkg_Version = ''1.0.0'',
       pkg_Publisher = ''ms-python'',
       pkg_Engines = \<lparr> VSCode = ''^1.80.0'' \<rparr>,
       pkg_Categories = [],
       pkg_Keywords = [],
       pkg_Icon = [],
       pkg_Repository = VNil,
       pkg_Homepage = [],
       pkg_Bugs = VNil,
       pkg_License = ''MIT'' \<rparr>"

definition sampleTable :: "(string \<times> goval) list" where
  "sampleTable =
     [(''name'', VString ''World''),
      (''displayName'', VString ''Python''),
      (''description'', VMap [(''message'', VString ''Python language support''),
                              (''comment'', VSlice [])])]"

definition sampleArchive :: "zfile list" where
  "sampleArchive =
     [\<lparr> zName = ''extension/package.json'', zBytes = Some ''{}'' \<rparr>,
      \<lparr> zName = ''extension/package.nls.json'', zBytes = Some ''nls'' \<rparr>]"

definition sampleUnmarshal :: "string \<Rightarrow> goval option" where
  "sampleUnmarshal bytes = (if bytes = ''nls'' then Some (VMap sampleTable) else None)"

section \<open>The file system and the network\<close>

text \<open>
  The outside world the download code acts on. \<open>files\<close> maps the path of a regular file to
  its bytes, \<open>dirs\<close> is the set of directories, \<open>denied\<close> the set of paths at which nothing
  can be created. \<open>network\<close> is what an HTTP GET of a URL gives; \<open>requests\<close> is the log of the
  URLs requested so far, so network I/O is an extension of this list.
\<close>

record httpResponse =
  StatusCode :: nat
  ContentType :: string
  Body :: string
  bodyFails :: bool

datatype httpResult = TransportError | Response httpResponse

record world =
  files :: "string \<rightharpoonup> string"
  dirs :: "string set"
  denied :: "string set"
  network :: "string \<Rightarrow> httpResult"
  requests :: "string list"

text \<open>
  \<^verbatim>\<open>os.MkdirAll\<close>, \<^verbatim>\<open>os.Stat\<close> (true when \<^verbatim>\<open>err == nil\<close>) and \<^verbatim>\<open>os.Create\<close>; \<open>None\<close> is an
  error, which leaves the world as it was.
\<close>

definition os_MkdirAll :: "world \<Rightarrow> string \<Rightarrow> world option" where
  "os_MkdirAll w path =
     (if path \<in> dirs w then Some w
      else if files w path \<noteq> None \<or> path \<in> denied w then None
      else Some (w\<lparr>dirs := insert path (dirs w)\<rparr>))"

definition os_Stat :: "world \<Rightarrow> string \<Rightarrow> bool" where
  "os_Stat w path \<longleftrightarrow> files w path \<noteq> None \<or> path \<in> dirs w"

definition os_Create :: "world \<Rightarrow> string \<Rightarrow> world option" where
  "os_Create w path =
     (if path \<in> dirs w \<or> path \<in> denied w then None
      else Some (w\<lparr>files := (files w)(path \<mapsto> [])\<rparr>))"

text \<open>
  \<^verbatim>\<open>filepath.Clean\<close> with the separator \<^verbatim>\<open>/\<close>. The path is cut at the separators;
  empty elements and \<^verbatim>\<open>.\<close> elements go, a \<^verbatim>\<open>..\<close> element takes the element before it
  with it (at the start of a rooted path it just goes, at the start of a relative path it
  stays), and the rest is joined again. The empty result is \<^verbatim>\<open>.\<close>.
\<close>

fun splitSlash :: "string \<Rightarrow> string list" where
  "splitSlash [] = [[]]"
| "splitSlash (c # cs) =
     (if c = CHR ''/'' then [] # splitSlash cs
      else (case splitSlash cs of
              [] \<Rightarrow> [[c]]
            | e # es \<Rightarrow> (c # e) # es))"

text \<open>\<open>kept\<close> is the stack of the elements kept so far, the last one on top.\<close>

fun cleanElems :: "bool \<Rightarrow> string list \<Rightarrow> string list \<Rightarrow> string list" where
  "cleanElems rooted [] kept = rev kept"
| "cleanElems rooted (e # es) kept =
     (if e = [] \<or> e = ''.'' then cleanElems rooted es kept
      else if e = ''..'' then
        (case kept of
           [] \<Rightarrow> (if rooted then cleanElems rooted es [] else cleanElems rooted es [e])
         | last_kept # below \<Rightarrow>
             (if last_kept = ''..'' then cleanElems rooted es (e # kept)
              else cleanElems rooted es below))
      else cleanElems rooted es (e # kept))"

fun joinSlash :: "string list \<Rightarrow> string" where
  "joinSlash [] = []"
| "joinSlash [e] = e"
| "joinSlash (e # e' # es) = e @ CHR ''/'' # joinSlash (e' # es)"

definition filepath_Clean :: "string \<Rightarrow> string" where
  "filepath_Clean path =
     (let rooted = (case path of [] \<Rightarrow> False | c # _ \<Rightarrow> c = CHR ''/'');
          out = (if rooted then ''/'' else []) @ joinSlash (cleanElems rooted (splitSlash path) [])
      in if out = [] then ''.'' else out)"

text \<open>
  \<^verbatim>\<open>filepath.Join\<close> of two elements: empty elements are ignored, the others are joined
  with a separator and the result is cleaned; two empty elements give the empty string.
\<close>

definition filepath_Join :: "string \<Rightarrow> string \<Rightarrow> string" where
  "filepath_Join a b =
     (if a = [] then (if b = [] then [] else filepath_Clean b)
      else filepath_Clean (a @ ''/'' @ b))"

section \<open>Upstream providers: fetching a package (package marketplace)\<close>

record ExtensionInfo =
  info_ID :: string
  info_Name :: string
  info_DisplayName :: string
  info_Description :: string
  info_Version :: string
  info_Publisher :: string
  info_DownloadURL :: string
  info_FileSize :: int

record DownloadResult =
  res_FilePath :: string
  WasDownloaded :: bool

datatype fetcherror =
    FailedToCreateDirectory
  | RequestError
  | InvalidStatusCode nat
  | FailedToCreateFile
  | FailedToWriteFile

text \<open>
  \<^verbatim>\<open>Marketplace.downloadFile\<close>: the GET is made (and logged) first; the file is created
  only after a 200 answer, and a body that breaks off leaves the file with what arrived.
\<close>

definition downloadFile :: "world \<Rightarrow> string \<Rightarrow> string \<Rightarrow> fetcherror option \<times> world" where
  "downloadFile w downloadURL filePath =
     (let w1 = w\<lparr>requests := requests w @ [downloadURL]\<rparr>
      in case network w downloadURL of
           TransportError \<Rightarrow> (Some RequestError, w1)
         | Response resp \<Rightarrow>
             (if StatusCode resp \<noteq> 200 then (Some (InvalidStatusCode (StatusCode resp)), w1)
              else
                (case os_Create w1 filePath of
                   None \<Rightarrow> (Some FailedToCreateFile, w1)
                 | Some w2 \<Rightarrow>
                     (let w3 = w2\<lparr>files := (files w2)(filePath \<mapsto> Body resp)\<rparr>
                      in if bodyFails resp then (Some FailedToWriteFile, w3) else (None, w3)))))"

definition DownloadExtension ::
  "world \<Rightarrow> ExtensionInfo \<Rightarrow> string \<Rightarrow> (fetcherror + DownloadResult) \<times> world" where
  "DownloadExtension w info targetDir =
     (case os_MkdirAll w targetDir of
        None \<Rightarrow> (Inl FailedToCreateDirectory, w)
      | Some w1 \<Rightarrow>
          (let fileName = info_Name info @ ''-'' @ info_Version info @ ''.vsix'';
               filePath = filepath_Join targetDir fileName
           in if os_Stat w1 filePath then
                (Inr \<lparr> res_FilePath = filePath, WasDownloaded = False \<rparr>, w1)
              else
                (case downloadFile w1 (info_DownloadURL info) filePath of
                   (Some err, w2) \<Rightarrow> (Inl err, w2)
                 | (None, w2) \<Rightarrow> (Inr \<lparr> res_FilePath = filePath, WasDownloaded = True \<rparr>, w2))))"

text \<open>The Open VSX variant: \<^verbatim>\<open>OpenVSXMarketplace.downloadFile\<close> and \<^verbatim>\<open>DownloadExtension\<close>.\<close>

definition downloadFile_OpenVSX :: "world \<Rightarrow> string \<Rightarrow> string \<Rightarrow> fetcherror option \<times> world" where
  "downloadFile_OpenVSX w downloadURL filePath =
     (let w1 = w\<lparr>requests := requests w @ [downloadURL]\<rparr>
      in case network w downloadURL of
           TransportError \<Rightarrow> (Some RequestError, w1)
         | Response resp \<Rightarrow>
             (if StatusCode resp \<noteq> 200 then (Some (InvalidStatusCode (StatusCode resp)), w1)
              else
                (case os_Create w1 filePath of
                   None \<Rightarrow> (Some FailedToCreateFile, w1)
                 | Some w2 \<Rightarrow>
                     (let w3 = w2\<lparr>files := (files w2)(filePath \<mapsto> Body resp)\<rparr>
                      in if bodyFails resp then (Some FailedToWriteFile, w3) else (None, w3)))))"

definition DownloadExtension_OpenVSX ::
  "world \<Rightarrow> ExtensionInfo \<Rightarrow> string \<Rightarrow> (fetcherror + DownloadResult) \<times> world" where
  "DownloadExtension_OpenVSX w info targetDir =
     (case os_MkdirAll w targetDir of
        None \<Rightarrow> (Inl FailedToCreateDirectory, w)
      | Some w1 \<Rightarrow>
          (let fileName = info_Name info @ ''-'' @ info_Version info @ ''.vsix'';
               filePath = filepath_Join targetDir fileName
           in if os_Stat w1 filePath then
                (Inr \<lparr> res_FilePath = filePath, WasDownloaded = False \<rparr>, w1)
              else
                (case downloadFile_OpenVSX w1 (info_DownloadURL info) filePath of
                   (Some err, w2) \<Rightarrow> (Inl err, w2)
                 | (None, w2) \<Rightarrow> (Inr \<lparr> res_FilePath = filePath, WasDownloaded = True \<rparr>, w2))))"

text \<open>Sample values: an upstream lookup result and two worlds with nothing on disk.\<close>

definition sampleInfo :: ExtensionInfo where
  "sampleInfo =
     \<lparr> info_ID = ''ms-python.python'',
       info_Name = ''python'',
       info_DisplayName = ''Python'',
       info_Description = [],
       info_Version = ''1.0.0'',
       info_Publisher = ''ms-python'',
       info_DownloadURL = ''https://upstream/python.vsix'',
       info_FileSize = 0 \<rparr>"

definition emptyWorld :: "(string \<Rightarrow> httpResult) \<Rightarrow> world" where
  "emptyWorld net = \<lparr> files = Map.empty, dirs = {}, denied = {}, network = net, requests = [] \<rparr>"

definition notFoundNet :: "string \<Rightarrow> httpResult" where
  "notFoundNet url = Response \<lparr> StatusCode = 404, ContentType = [], Body = [], bodyFails = False \<rparr>"

definition servingNet :: "string \<Rightarrow> httpResult" where
  "servingNet url =
     Response \<lparr> StatusCode = 200, ContentType = ''image/png'', Body = ''bytes'', bodyFails = False \<rparr>"

definition truncatingNet :: "string \<Rightarrow> httpResult" where
  "truncatingNet url =
     Response \<lparr> StatusCode = 200, ContentType = ''application/octet-stream'', Body = ''by'',
                bodyFails = True \<rparr>"

section \<open>The patterns of the asset rewriter\<close>

text \<open>
  The six regular expressions of the rewriter are concatenations of single characters,
  character classes and greedy repetitions of a class, with capture groups that are not
  nested. \<open>Lit\<close> is one character, \<open>OneOf\<close> a class \<^verbatim>\<open>[...]\<close>, \<open>NoneOf\<close> a negated class
  \<^verbatim>\<open>[^...]\<close>; \<open>Star\<close> and \<open>Plus\<close> are \<^verbatim>\<open>*\<close> and \<^verbatim>\<open>+\<close> on a class; \<open>Open\<close> and \<open>Close\<close> are the
  parentheses of a group. Matching is on bytes: the delimiters of the six patterns are
  ASCII, so the spans are those of matching on runes.
\<close>

datatype cclass = Lit char | OneOf "char list" | NoneOf "char list"

fun accepts :: "cclass \<Rightarrow> char \<Rightarrow> bool" where
  "accepts (Lit c) x \<longleftrightarrow> x = c"
| "accepts (OneOf cs) x \<longleftrightarrow> x \<in> set cs"
| "accepts (NoneOf cs) x \<longleftrightarrow> x \<notin> set cs"

datatype item = One cclass | Star cclass | Plus cclass | Open | Close

type_synonym regexp = "item list"

text \<open>
  A match of the expression at the head of the text \<open>s\<close>, which starts at offset \<open>pos\<close>:
  the offset where the match ends and the offsets of the group parentheses passed, in
  order. A repetition takes as many characters as it can and gives them back one by one
  when what follows does not match: the match found is the one a backtracking matcher
  prefers, which is the leftmost-first match of Go's \<^verbatim>\<open>regexp\<close>.
\<close>

fun rmatch :: "regexp \<Rightarrow> string \<Rightarrow> nat \<Rightarrow> nat list \<Rightarrow> (nat \<times> nat list) option" where
  "rmatch [] s pos caps = Some (pos, caps)"
| "rmatch (Open # re) s pos caps = rmatch re s pos (caps @ [pos])"
| "rmatch (Close # re) s pos caps = rmatch re s pos (caps @ [pos])"
| "rmatch (One c # re) [] pos caps = None"
| "rmatch (One c # re) (x # xs) pos caps =
     (if accepts c x then rmatch re xs (Suc pos) caps else None)"
| "rmatch (Plus c # re) [] pos caps = None"
| "rmatch (Plus c # re) (x # xs) pos caps =
     (if accepts c x then rmatch (Star c # re) xs (Suc pos) caps else None)"
| "rmatch (Star c # re) [] pos caps = rmatch re [] pos caps"
| "rmatch (Star c # re) (x # xs) pos caps =
     (if accepts c x then
        (case rmatch (Star c # re) xs (Suc pos) caps of
           Some r \<Rightarrow> Some r
         | None \<Rightarrow> rmatch re (x # xs) pos caps)
      else rmatch re (x # xs) pos caps)"

text \<open>The leftmost match in the text \<open>s\<close> that starts at offset \<open>pos\<close>: start, end, groups.\<close>

fun findFrom :: "regexp \<Rightarrow> string \<Rightarrow> nat \<Rightarrow> (nat \<times> nat \<times> nat list) option" where
  "findFrom re [] pos =
     (case rmatch re [] pos [] of Some (e, caps) \<Rightarrow> Some (pos, e, caps) | None \<Rightarrow> None)"
| "findFrom re (x # xs) pos =
     (case rmatch re (x # xs) pos [] of
        Some (e, caps) \<Rightarrow> Some (pos, e, caps)
      | None \<Rightarrow> findFrom re xs (Suc pos))"

text \<open>\<^verbatim>\<open>s[i:j]\<close>.\<close>

definition slice :: "string \<Rightarrow> nat \<Rightarrow> nat \<Rightarrow> string" where
  "slice s i j = take (j - i) (drop i s)"

fun groups :: "string \<Rightarrow> nat list \<Rightarrow> string list" where
  "groups s (b # e # caps) = slice s b e # groups s caps"
| "groups s _ = []"

text \<open>
  \<^verbatim>\<open>FindStringSubmatch\<close>: the leftmost match and its groups; the empty list is the nil slice
  of no match.
\<close>

definition FindStringSubmatch :: "regexp \<Rightarrow> string \<Rightarrow> string list" where
  "FindStringSubmatch re s =
     (case findFrom re s 0 of
        None \<Rightarrow> []
      | Some (b, e, caps) \<Rightarrow> slice s b e # groups s caps)"

text \<open>
  The loop of \<^verbatim>\<open>Regexp.replaceAll\<close>, which \<^verbatim>\<open>ReplaceAllStringFunc\<close> runs: \<open>searchPos\<close> is
  where the next match is looked for, \<open>lastMatchEnd\<close> the end of the last match, \<open>buf\<close> the
  output so far. The replacement function acts on the world, which is passed along. An
  empty match right after another match is not replaced, and the search always advances by
  at least one character.
\<close>

function replaceAll ::
  "regexp \<Rightarrow> (string \<Rightarrow> 'w \<Rightarrow> string \<times> 'w) \<Rightarrow> string \<Rightarrow> nat \<Rightarrow> nat \<Rightarrow> string \<Rightarrow> 'w \<Rightarrow> string \<times> 'w" where
  "replaceAll re repl src searchPos lastMatchEnd buf w =
     (if length src < searchPos then (buf @ drop lastMatchEnd src, w)
      else
        (case findFrom re (drop searchPos src) searchPos of
           None \<Rightarrow> (buf @ drop lastMatchEnd src, w)
         | Some (a0, a1, caps) \<Rightarrow>
             (if lastMatchEnd < a1 \<or> a0 = 0 then
                (case repl (slice src a0 a1) w of
                   (r, w') \<Rightarrow>
                     replaceAll re repl src (max (Suc searchPos) a1) a1
                       (buf @ slice src lastMatchEnd a0 @ r) w')
              else
                replaceAll re repl src (max (Suc searchPos) a1) a1
                  (buf @ slice src lastMatchEnd a0) w)))"
  by pat_completeness auto
termination
  by (relation "measure (\<lambda>(re, repl, src, searchPos, lastMatchEnd, buf, w). Suc (length src) - searchPos)")
    auto

declare replaceAll.simps [simp del]

definition ReplaceAllStringFunc ::
  "regexp \<Rightarrow> string \<Rightarrow> (string \<Rightarrow> 'w \<Rightarrow> string \<times> 'w) \<Rightarrow> 'w \<Rightarrow> string \<times> 'w" where
  "ReplaceAllStringFunc re src repl w = replaceAll re repl src 0 0 [] w"

text \<open>The matches that loop hands to the replacement function, in order.\<close>

function matchesFrom :: "regexp \<Rightarrow> string \<Rightarrow> nat \<Rightarrow> nat \<Rightarrow> string list" where
  "matchesFrom re src searchPos lastMatchEnd =
     (if length src < searchPos then []
      else
        (case findFrom re (drop searchPos src) searchPos of
           None \<Rightarrow> []
         | Some (a0, a1, caps) \<Rightarrow>
             (if lastMatchEnd < a1 \<or> a0 = 0 then
                slice src a0 a1 # matchesFrom re src (max (Suc searchPos) a1) a1
              else matchesFrom re src (max (Suc searchPos) a1) a1)))"
  by pat_completeness auto
termination
  by (relation "measure (\<lambda>(re, src, searchPos, lastMatchEnd). Suc (length src) - searchPos)") auto

declare matchesFrom.simps [simp del]

definition allMatches :: "regexp \<Rightarrow> string \<Rightarrow> string list" where
  "allMatches re src = matchesFrom re src 0 0"

text \<open>The six expressions, as the source writes them.\<close>

definition lits :: "string \<Rightarrow> regexp" where
  "lits s = map (\<lambda>c. One (Lit c)) s"

definition quotes :: "char list" where
  "quotes = [CHR 0x22, CHR 0x27]"

definition whitespace :: "char list" where
  "whitespace = [CHR 0x09, CHR 0x0A, CHR 0x0C, CHR 0x0D, CHR 0x20]"

text \<open>\<^verbatim>\<open>!\[([^\]]*)\]\(([^)]+)\)\<close>\<close>

definition markdownImage :: regexp where
  "markdownImage =
     lits ''!['' @ [Open, Star (NoneOf '']''), Close] @ lits '']('' @
     [Open, Plus (NoneOf '')''), Close] @ lits '')''"

text \<open>\<^verbatim>\<open><img[^>]+src=["']([^"']+)["'][^>]*>\<close>\<close>

definition imgTag :: regexp where
  "imgTag =
     lits ''<img'' @ [Plus (NoneOf ''>'')] @ lits ''src='' @
     [One (OneOf quotes), Open, Plus (NoneOf quotes), Close, One (OneOf quotes),
      Star (NoneOf ''>'')] @ lits ''>''"

text \<open>\<^verbatim>\<open>!\[([^\]]*)\]\(([^)]+)\s*"([^"]*)"\)\<close>\<close>

definition markdownImageTitle :: regexp where
  "markdownImageTitle =
     lits ''!['' @ [Open, Star (NoneOf '']''), Close] @ lits '']('' @
     [Open, Plus (NoneOf '')''), Close, Star (OneOf whitespace), One (Lit (CHR 0x22)),
      Open, Star (NoneOf [CHR 0x22]), Close, One (Lit (CHR 0x22))] @ lits '')''"

text \<open>\<^verbatim>\<open><link[^>]+href=["']([^"']+)["'][^>]*>\<close>\<close>

definition linkTag :: regexp where
  "linkTag =
     lits ''<link'' @ [Plus (NoneOf ''>'')] @ lits ''href='' @
     [One (OneOf quotes), Open, Plus (NoneOf quotes), Close, One (OneOf quotes),
      Star (NoneOf ''>'')] @ lits ''>''"

text \<open>\<^verbatim>\<open><script[^>]+src=["']([^"']+)["'][^>]*>\<close>\<close>

definition scriptTag :: regexp where
  "scriptTag =
     lits ''<script'' @ [Plus (NoneOf ''>'')] @ lits ''src='' @
     [One (OneOf quotes), Open, Plus (NoneOf quotes), Close, One (OneOf quotes),
      Star (NoneOf ''>'')] @ lits ''>''"

text \<open>\<^verbatim>\<open>\[([^\]]+)\]\(([^)]+)\)\<close>\<close>

definition markdownLink :: regexp where
  "markdownLink =
     lits ''['' @ [Open, Plus (NoneOf '']''), Close] @ lits '']('' @
     [Open, Plus (NoneOf '')''), Close] @ lits '')''"

section \<open>The asset rewriter (AssetProcessor)\<close>

record AssetProcessor =
  ap_assetsDir :: string
  ap_baseURL :: string

text \<open>
  Two library functions are parameters: \<open>url_Path\<close> is the \<^verbatim>\<open>Path\<close> of \<^verbatim>\<open>url.Parse\<close>
  (\<open>None\<close> when the URL does not parse) and \<open>md5_hex\<close> the MD5 digest in hexadecimal.
\<close>

record library =
  url_Path :: "string \<Rightarrow> string option"
  md5_hex :: "string \<Rightarrow> string"

definition contentTypeExt :: "string \<Rightarrow> string" where
  "contentTypeExt contentType =
     (if Contains contentType ''image/png'' then ''.png''
      else if Contains contentType ''image/jpeg'' then ''.jpg''
      else if Contains contentType ''image/gif'' then ''.gif''
      else if Contains contentType ''image/svg+xml'' then ''.svg''
      else if Contains contentType ''text/css'' then ''.css''
      else if Contains contentType ''application/javascript'' then ''.js''
      else ''.bin'')"

definition generateFileName :: "library \<Rightarrow> string \<Rightarrow> string \<Rightarrow> string" where
  "generateFileName lib assetURL contentType =
     (let hashed = md5_hex lib assetURL @ contentTypeExt contentType
      in case url_Path lib assetURL of
           None \<Rightarrow> hashed
         | Some path \<Rightarrow>
             (if path \<noteq> [] then
                (let fileName = filepath_Base path
                 in if fileName \<noteq> [] \<and> fileName \<noteq> ''.'' then fileName else hashed)
              else hashed))"

datatype asseterror =
    HttpRequestError
  | InvalidStatus nat
  | FileCreationError
  | FileCopyError
  | FailedToCreateAssetDirectory

text \<open>
  \<^verbatim>\<open>downloadAsset\<close>: the GET is made and logged, a 200 answer is written under the name
  chosen by \<^verbatim>\<open>generateFileName\<close>, and that name is returned.
\<close>

definition downloadAsset :: "library \<Rightarrow> world \<Rightarrow> string \<Rightarrow> string \<Rightarrow> (asseterror + string) \<times> world" where
  "downloadAsset lib w assetURL assetsDir =
     (let w1 = w\<lparr>requests := requests w @ [assetURL]\<rparr>
      in case network w assetURL of
           TransportError \<Rightarrow> (Inl HttpRequestError, w1)
         | Response resp \<Rightarrow>
             (if StatusCode resp \<noteq> 200 then (Inl (InvalidStatus (StatusCode resp)), w1)
              else
                (let fileName = generateFileName lib assetURL (ContentType resp);
                     filePath = filepath_Join assetsDir fileName
                 in case os_Create w1 filePath of
                      None \<Rightarrow> (Inl FileCreationError, w1)
                    | Some w2 \<Rightarrow>
                        (let w3 = w2\<lparr>files := (files w2)(filePath \<mapsto> Body resp)\<rparr>
                         in if bodyFails resp then (Inl FileCopyError, w3)
                            else (Inr fileName, w3)))))"

text \<open>
  \<^verbatim>\<open>strings.Replace(s, old, new, 1)\<close>: the first occurrence of \<open>old\<close> is replaced.
\<close>

fun replaceFirst :: "string \<Rightarrow> string \<Rightarrow> string \<Rightarrow> string" where
  "replaceFirst old new [] = (if old = [] then new else [])"
| "replaceFirst old new (c # cs) =
     (if prefix old (c # cs) then new @ drop (length old) (c # cs)
      else c # replaceFirst old new cs)"

text \<open>
  The reference of a match: the second group when the expression has two or more groups,
  the first group otherwise.
\<close>

definition referenceOf :: "string list \<Rightarrow> string" where
  "referenceOf matches = (if 3 \<le> length matches then matches ! 2 else matches ! 1)"

definition localAssetURL :: "AssetProcessor \<Rightarrow> string \<Rightarrow> string \<Rightarrow> string" where
  "localAssetURL ap extensionID localPath =
     ap_baseURL ap @ ''/_assets/'' @ extensionID @ ''/'' @ filepath_Base localPath"

definition processImageMatch ::
  "AssetProcessor \<Rightarrow> library \<Rightarrow> regexp \<Rightarrow> string \<Rightarrow> string \<Rightarrow> string \<Rightarrow> world \<Rightarrow> string \<times> world" where
  "processImageMatch ap lib pattern assetsDir extensionID match w =
     (let matches = FindStringSubmatch pattern match
      in if length matches < 2 then (match, w)
         else
           (let imageURL = referenceOf matches
            in if HasPrefix imageURL ''data:'' \<or> HasPrefix imageURL ''#'' then (match, w)
               else
                 (case downloadAsset lib w imageURL assetsDir of
                    (Inl err, w') \<Rightarrow> (match, w')
                  | (Inr localPath, w') \<Rightarrow>
                      (let localURL = localAssetURL ap extensionID localPath
                       in if Contains match ''!['' then
                            (if 3 \<le> length matches then
                               (''!['' @ matches ! 1 @ '']('' @ localURL @ '')'', w')
                             else (''![]('' @ localURL @ '')'', w'))
                          else (replaceFirst imageURL localURL match, w')))))"

definition processAssetMatch ::
  "AssetProcessor \<Rightarrow> library \<Rightarrow> regexp \<Rightarrow> string \<Rightarrow> string \<Rightarrow> string \<Rightarrow> world \<Rightarrow> string \<times> world" where
  "processAssetMatch ap lib pattern assetsDir extensionID match w =
     (let matches = FindStringSubmatch pattern match
      in if length matches < 2 then (match, w)
         else
           (let assetURL = referenceOf matches
            in if HasPrefix assetURL ''data:'' \<or> HasPrefix assetURL ''#''
                  \<or> HasPrefix assetURL ''http'' then (match, w)
               else
                 (case downloadAsset lib w assetURL assetsDir of
                    (Inl err, w') \<Rightarrow> (match, w')
                  | (Inr localPath, w') \<Rightarrow>
                      (let localURL = localAssetURL ap extensionID localPath
                       in if Contains match ''<link'' \<or> Contains match ''<script'' then
                            (replaceFirst assetURL localURL match, w')
                          else (''['' @ matches ! 1 @ '']('' @ localURL @ '')'', w')))))"

text \<open>
  The loop \<^verbatim>\<open>for _, pattern := range patterns\<close>: each expression rewrites the content the
  one before it left.
\<close>

fun applyPatterns ::
  "(regexp \<Rightarrow> string \<Rightarrow> world \<Rightarrow> string \<times> world) \<Rightarrow> regexp list \<Rightarrow> string \<Rightarrow> world \<Rightarrow> string \<times> world" where
  "applyPatterns f [] content w = (content, w)"
| "applyPatterns f (pattern # patterns) content w =
     (case ReplaceAllStringFunc pattern content (f pattern) w of
        (content', w') \<Rightarrow> applyPatterns f patterns content' w')"

definition imagePatterns :: "regexp list" where
  "imagePatterns = [markdownImage, imgTag, markdownImageTitle]"

definition otherPatterns :: "regexp list" where
  "otherPatterns = [linkTag, scriptTag, markdownLink]"

definition processImages ::
  "AssetProcessor \<Rightarrow> library \<Rightarrow> string \<Rightarrow> string \<Rightarrow> string \<Rightarrow> world \<Rightarrow> string \<times> world" where
  "processImages ap lib content assetsDir extensionID w =
     applyPatterns (\<lambda>pattern. processImageMatch ap lib pattern assetsDir extensionID)
       imagePatterns content w"

definition processOtherAssets ::
  "AssetProcessor \<Rightarrow> library \<Rightarrow> string \<Rightarrow> string \<Rightarrow> string \<Rightarrow> world \<Rightarrow> string \<times> world" where
  "processOtherAssets ap lib content assetsDir extensionID w =
     applyPatterns (\<lambda>pattern. processAssetMatch ap lib pattern assetsDir extensionID)
       otherPatterns content w"

definition ProcessReadme ::
  "AssetProcessor \<Rightarrow> library \<Rightarrow> world \<Rightarrow> string \<Rightarrow> string \<Rightarrow> (asseterror + string) \<times> world" where
  "ProcessReadme ap lib w readmeContent extensionID =
     (if readmeContent = [] then (Inr [], w)
      else
        (let extensionAssetsDir = filepath_Join (ap_assetsDir ap) extensionID
         in case os_MkdirAll w extensionAssetsDir of
              None \<Rightarrow> (Inl FailedToCreateAssetDirectory, w)
            | Some w1 \<Rightarrow>
                (case processImages ap lib readmeContent extensionAssetsDir extensionID w1 of
                   (processedContent, w2) \<Rightarrow>
                     (case processOtherAssets ap lib processedContent extensionAssetsDir
                             extensionID w2 of
                        (processedContent', w3) \<Rightarrow> (Inr processedContent', w3)))))"

text \<open>
  A reference that stays in the document: a \<^verbatim>\<open>data:\<close> URI or an in-page \<^verbatim>\<open>#\<close> anchor. A
  content has only such references when, for each of the six expressions, every match the
  rewriter visits refers to one.
\<close>

definition inDocument :: "string \<Rightarrow> bool" where
  "inDocument ref \<longleftrightarrow> HasPrefix ref ''data:'' \<or> HasPrefix ref ''#''"

definition onlyInDocumentReferences :: "string \<Rightarrow> bool" where
  "onlyInDocumentReferences content \<longleftrightarrow>
     list_all
       (\<lambda>pattern. list_all (\<lambda>match. inDocument (referenceOf (FindStringSubmatch pattern match)))
                     (allMatches pattern content))
       (imagePatterns @ otherPatterns)"

text \<open>Sample values: the processor of the shipped configuration and a library.\<close>

definition sampleProcessor :: AssetProcessor where
  "sampleProcessor = \<lparr> ap_assetsDir = ''data/assets'', ap_baseURL = ''https://domain:8080'' \<rparr>"

definition sampleLibrary :: library where
  "sampleLibrary =
     \<lparr> url_Path = (\<lambda>u. if u = ''http://x/img.png'' then Some ''/img.png'' else None),
       md5_hex = (\<lambda>u. ''d41d8cd98f00b204e9800998ecf8427e'') \<rparr>"

definition sampleReadme :: string where
  "sampleReadme = ''![logo](data:image/png;base64,AAAA) [top](#top) <img src=\"#x\">''"

section \<open>Paths of the sample configuration\<close>

lemma sample_paths:
  "filepath_Join ''data/extensions'' ''python-1.0.0.vsix'' = ''data/extensions/python-1.0.0.vsix''"
  "filepath_Join ''data/assets'' ''ms-python.python'' = ''data/assets/ms-python.python''"
  "filepath_Join ''data/assets/ms-python.python'' ''img.png'' = ''data/assets/ms-python.python/img.png''"
  by (simp_all add: filepath_Join_def filepath_Clean_def)

text \<open>
  A file name that is only a separator joins to the directory itself, which cannot be
  created as a file once it exists as a directory.
\<close>

lemma join_separator_is_directory:
  "filepath_Join ''data/assets/ms-python.python'' ''/'' = ''data/assets/ms-python.python''"
  by (simp add: filepath_Join_def filepath_Clean_def)

section \<open>Query decode: which occurrence of a tag wins\<close>

lemma scanCriterion_tagged:
  "scanCriterion c (sq, eid) =
     (case taggedValue 10 c of Some v \<Rightarrow> v | None \<Rightarrow> sq,
      case taggedValue 4 c of Some v \<Rightarrow> v | None \<Rightarrow> eid)"
  by (cases c) (auto split: goval.splits)

lemma occurrences_Cons:
  "occurrences t (c # cs) =
     (case taggedValue t c of None \<Rightarrow> occurrences t cs | Some v \<Rightarrow> v # occurrences t cs)"
  by (simp add: occurrences_def split: option.splits)

lemma lastOr_Cons: "lastOr d (v # vs) = lastOr v vs"
  by (cases "rev vs") (auto simp: lastOr_def)

lemma scanCriteria_last:
  "scanCriteria cs (sq, eid) = (lastOr sq (occurrences 10 cs), lastOr eid (occurrences 4 cs))"
proof (induction cs arbitrary: sq eid)
  case Nil
  show ?case by (simp add: occurrences_def lastOr_def)
next
  case (Cons c cs)
  show ?case
    by (simp add: scanCriterion_tagged Cons.IH occurrences_Cons lastOr_Cons split: option.splits)
qed

lemma decodeQuery_criteria:
  assumes "noTopLevelQuery query"
  shows "decodeQuery query = scanCriteria (firstFilterCriteria query) ([], [])"
  using assms
  by (auto simp: decodeQuery_def scanFilters_def noTopLevelQuery_def firstFilterCriteria_def
      split: goval.splits list.splits)

text \<open>
  C1, as the specification states it, fails: with two criteria of filterType 10 carrying
  \<^verbatim>\<open>a\<close> then \<^verbatim>\<open>b\<close>, and two of filterType 4 carrying \<^verbatim>\<open>p.x\<close> then \<^verbatim>\<open>p.y\<close>, the first
  occurrences are \<^verbatim>\<open>a\<close> and \<^verbatim>\<open>p.x\<close>, and the decode gives \<^verbatim>\<open>b\<close> and \<^verbatim>\<open>p.y\<close>.
\<close>

theorem decode_first_occurrence_counterexample:
  "decodeQuery
     [(''filters'', VSlice [VMap [(''criteria'', VSlice
        [criterion 10 ''a'', criterion 4 ''p.x'', criterion 10 ''b'', criterion 4 ''p.y''])]])]
   = (''b'', ''p.y'')
   \<and> firstOccurrence 10
        [criterion 10 ''a'', criterion 4 ''p.x'', criterion 10 ''b'', criterion 4 ''p.y''] = ''a''
   \<and> firstOccurrence 4
        [criterion 10 ''a'', criterion 4 ''p.x'', criterion 10 ''b'', criterion 4 ''p.y''] = ''p.x''"
  by (simp add: decodeQuery_def scanFilters_def index_def criterion_def firstOccurrence_def
      occurrences_def)

text \<open>
  C1 (amended): for a body with no non-empty top-level query string, the decoded search
  string is the value of the last criterion of the first filter that has filterType 10 and a
  string value, and the decoded identifier is the value of the last such criterion of
  filterType 4; a tag with no such criterion decodes to the empty string.
\<close>

theorem decode_last_occurrence_wins:
  assumes "noTopLevelQuery query"
    and "index query ''filters'' = VSlice (VMap flt # others)"
    and "index flt ''criteria'' = VSlice criteria"
  shows "decodeQuery query = (lastOccurrence 10 criteria, lastOccurrence 4 criteria)"
  using assms
  by (auto simp: decodeQuery_def scanFilters_def noTopLevelQuery_def lastOccurrence_def
      scanCriteria_last split: goval.splits)

theorem decode_last_occurrence_wins_witness:
  "noTopLevelQuery [(''filters'', VSlice [VMap [(''criteria'', VSlice
        [criterion 10 ''a'', criterion 4 ''p.x'', criterion 10 ''b''])]])]
   \<and> decodeQuery [(''filters'', VSlice [VMap [(''criteria'', VSlice
        [criterion 10 ''a'', criterion 4 ''p.x'', criterion 10 ''b''])]])]
     = (''b'', ''p.x'')"
proof -
  let ?cs = "[criterion 10 ''a'', criterion 4 ''p.x'', criterion 10 ''b'']"
  let ?flt = "[(''criteria'', VSlice ?cs)]"
  let ?q = "[(''filters'', VSlice [VMap ?flt])]"
  have h1: "noTopLevelQuery ?q"
    by (simp add: noTopLevelQuery_def index_def)
  have h2: "index ?q ''filters'' = VSlice (VMap ?flt # [])"
    by (simp add: index_def)
  have h3: "index ?flt ''criteria'' = VSlice ?cs"
    by (simp add: index_def)
  have "lastOccurrence 10 ?cs = ''b''" "lastOccurrence 4 ?cs = ''p.x''"
    by (simp_all add: lastOccurrence_def lastOr_def occurrences_def criterion_def index_def)
  with decode_last_occurrence_wins [OF h1 h2 h3] h1 show ?thesis by simp
qed

section \<open>The catalog: upsert and lookup\<close>

lemma find_filter_eq:
  "find P xs = (case filter P xs of [] \<Rightarrow> None | x # _ \<Rightarrow> Some x)"
  by (induction xs) auto

text \<open>
  C2: when the statement is served, ingesting a row leaves exactly one stored row with its
  identifier, equal to the ingested row in every field, whatever was stored under that
  identifier before; the rows with other identifiers are the same as before, and a lookup
  of the identifier gives the ingested row.
\<close>

theorem upsert_replaces_record:
  assumes "fault d = None"
  shows "fst (UpsertExtension d ext) = None
       \<and> [r \<leftarrow> rows (snd (UpsertExtension d ext)). db_ID r = db_ID ext] = [ext]
       \<and> [r \<leftarrow> rows (snd (UpsertExtension d ext)). db_ID r \<noteq> db_ID ext]
           = [r \<leftarrow> rows d. db_ID r \<noteq> db_ID ext]
       \<and> GetExtensionByID (snd (UpsertExtension d ext)) (db_ID ext) = Inr (Some ext)"
proof -
  have same: "[r \<leftarrow> [r \<leftarrow> rows d. db_ID r \<noteq> db_ID ext]. db_ID r = db_ID ext] = []"
    by (induction "rows d") (auto simp: filter_empty_conv)
  have other: "[r \<leftarrow> [r \<leftarrow> rows d. db_ID r \<noteq> db_ID ext]. db_ID r \<noteq> db_ID ext]
                 = [r \<leftarrow> rows d. db_ID r \<noteq> db_ID ext]"
    by simp
  show ?thesis
    using assms same other
    by (simp add: UpsertExtension_def GetExtensionByID_def find_filter_eq)
qed

theorem upsert_replaces_record_witness:
  "fault (sampleDatabase [sampleRow ''p'' ''a'' ''1.0.0'' 1, sampleRow ''p'' ''b'' ''1.0.0'' 2]) = None
   \<and> rows (snd (UpsertExtension
        (sampleDatabase [sampleRow ''p'' ''a'' ''1.0.0'' 1, sampleRow ''p'' ''b'' ''1.0.0'' 2])
        (sampleRow ''p'' ''a'' ''2.0.0'' 3)))
     = [sampleRow ''p'' ''b'' ''1.0.0'' 2, sampleRow ''p'' ''a'' ''2.0.0'' 3]
   \<and> [r \<leftarrow> rows (snd (UpsertExtension
        (sampleDatabase [sampleRow ''p'' ''a'' ''1.0.0'' 1, sampleRow ''p'' ''b'' ''1.0.0'' 2])
        (sampleRow ''p'' ''a'' ''2.0.0'' 3))). db_ID r = db_ID (sampleRow ''p'' ''a'' ''2.0.0'' 3)]
     = [sampleRow ''p'' ''a'' ''2.0.0'' 3]"
proof -
  let ?d = "sampleDatabase [sampleRow ''p'' ''a'' ''1.0.0'' 1, sampleRow ''p'' ''b'' ''1.0.0'' 2]"
  have h: "fault ?d = None"
    by (simp add: sampleDatabase_def)
  have r: "rows (snd (UpsertExtension ?d (sampleRow ''p'' ''a'' ''2.0.0'' 3)))
             = [sampleRow ''p'' ''b'' ''1.0.0'' 2, sampleRow ''p'' ''a'' ''2.0.0'' 3]"
    by (simp add: UpsertExtension_def sampleDatabase_def sampleRow_def)
  from upsert_replaces_record [OF h, of "sampleRow ''p'' ''a'' ''2.0.0'' 3"] h r
  show ?thesis by simp
qed

text \<open>
  C10, evaluated where it fails: the table is empty and the connection is sound, so the
  lookup of any identifier is \<^verbatim>\<open>nil, nil\<close>, and \<^verbatim>\<open>GetByID\<close> does not return
  \<^verbatim>\<open>(nil, false)\<close>: it panics in \<^verbatim>\<open>ToExtension\<close>.
\<close>

theorem GetByID_absent_row_panics:
  "GetExtensionByID (sampleDatabase []) ''ms-python.python'' = Inr None
   \<and> GetByID sampleJSON \<lparr> directory = ''data/extensions'', db = sampleDatabase [] \<rparr>
        ''ms-python.python''
     = Panics nilDereference"
  by (simp add: GetByID_def GetExtensionByID_def ToExtension_def sampleDatabase_def)

text \<open>
  Over the gorm version of the lookup the same method is total: it returns a record with
  \<open>True\<close> or no record with \<open>False\<close>.
\<close>

lemma GetByID_gorm_total:
  "(\<exists>ext. GetByID_gorm J m id' = Returns (Some ext, True))
   \<or> GetByID_gorm J m id' = Returns (None, False)"
  by (auto simp: GetByID_gorm_def GetExtensionByID_gorm_def ToExtension_def
      split: option.splits)

lemma GetByID_absent:
  assumes "fault (db m) = None" and "find (\<lambda>r. db_ID r = id') (rows (db m)) = None"
  shows "GetByID J m id' = Panics nilDereference"
  using assms by (simp add: GetByID_def GetExtensionByID_def ToExtension_def)

lemma GetByID_present:
  assumes "fault (db m) = None" and "find (\<lambda>r. db_ID r = id') (rows (db m)) = Some row"
  shows "GetByID J m id' = Returns (Some (toExtension J row), True)"
  using assms by (simp add: GetByID_def GetExtensionByID_def ToExtension_def)

lemma GetByID_fault:
  assumes "fault (db m) = Some err"
  shows "GetByID J m id' = Returns (None, False)"
  using assms by (simp add: GetByID_def GetExtensionByID_def)

section \<open>Resolution and response assembly\<close>

lemma createExtensionInfo_not_nil: "fst (createExtensionInfo s rnd n ext) \<noteq> VNil"
  by (simp add: createExtensionInfo_def Let_def split: prod.splits)

lemma appendInfos_built:
  assumes "list_all2 (\<lambda>info row. \<exists>k. info = fst (createExtensionInfo s rnd k (toExtension J row)))
             results done"
  shows "list_all2 (\<lambda>info row. \<exists>k. info = fst (createExtensionInfo s rnd k (toExtension J row)))
           (fst (appendInfos s rnd (ToExtensionSlice J rs) results n)) (done @ rs)"
  using assms
proof (induction rs arbitrary: results "done" n)
  case Nil
  then show ?case by (simp add: ToExtensionSlice_def)
next
  case (Cons row rs)
  obtain info n' where c: "createExtensionInfo s rnd n (toExtension J row) = (info, n')"
    by (cases "createExtensionInfo s rnd n (toExtension J row)")
  have nn: "info \<noteq> VNil"
    using createExtensionInfo_not_nil [of s rnd n "toExtension J row"] c by simp
  have "list_all2 (\<lambda>info row. \<exists>k. info = fst (createExtensionInfo s rnd k (toExtension J row)))
          (results @ [info]) (done @ [row])"
    using Cons.prems c by (auto intro!: list_all2_appendI exI [of _ n])
  from Cons.IH [OF this, of n'] show ?case
    using c nn by (simp add: ToExtensionSlice_def)
qed

lemma extensionsOf_queryResponse:
  "extensionsOf (Returns (writeJSON hdr code (queryResponse results))) = results"
  by (simp add: extensionsOf_def firstResult_def writeJSON_def queryResponse_def index_def)

lemma totalCountOf_queryResponse:
  "totalCountOf (Returns (writeJSON hdr code (queryResponse results))) = Some (int (length results))"
  by (simp add: totalCountOf_def firstResult_def writeJSON_def queryResponse_def index_def)

lemma statusOf_writeJSON: "statusOf (Returns (writeJSON hdr code data)) = Some code"
  by (simp add: statusOf_def writeJSON_def)

lemma noUsableCriteria_decode:
  assumes "noUsableCriteria query"
  shows "decodeQuery query = ([], [])"
proof -
  have nt: "noTopLevelQuery query"
    and un: "list_all (\<lambda>c. \<not> hasTag 10 c \<and> \<not> hasTag 4 c) (firstFilterCriteria query)"
    using assms by (simp_all add: noUsableCriteria_def)
  have untagged: "taggedValue t c = None" if "\<not> hasTag t c" for t c
    using that by (cases c) (auto simp: hasTag_def split: goval.splits)
  have "occurrences t cs = []"
    if "list_all (\<lambda>c. \<not> hasTag 10 c \<and> \<not> hasTag 4 c) cs" and "t = 10 \<or> t = 4" for t cs
    using that by (induction cs) (auto simp: occurrences_Cons untagged occurrences_def)
  then have "occurrences 10 (firstFilterCriteria query) = []"
    and "occurrences 4 (firstFilterCriteria query) = []"
    using un by simp_all
  then show ?thesis
    by (simp add: decodeQuery_criteria [OF nt] scanCriteria_last lastOr_def)
qed

lemma GetAll_rows:
  assumes "fault (db m) = None"
  shows "GetAll J m = ToExtensionSlice J (take 10000 (sqlOrderBy (db m) (rows (db m))))"
  using assms
  by (simp add: GetAll_def GetAllExtensions_def limitOffset_def maxExtensionsLimit_def Let_def)

lemma query_without_criteria:
  assumes "reqMethod r = ''POST''"
    and "decodeMap (reqBody r) = Some query"
    and "noUsableCriteria query"
    and "fault (db (extManager s)) = None"
  shows "\<exists>results.
           handleExtensionQuery J s rnd r
             = Returns (writeJSON HTTPAPIVersion StatusOK (queryResponse results))
         \<and> list_all2 (\<lambda>info row. \<exists>k. info = fst (createExtensionInfo s rnd k (toExtension J row)))
             results
             (take 10000 (sqlOrderBy (db (extManager s)) (rows (db (extManager s)))))"
proof -
  let ?rs = "take 10000 (sqlOrderBy (db (extManager s)) (rows (db (extManager s))))"
  let ?results = "fst (appendInfos s rnd (ToExtensionSlice J ?rs) [] 0)"
  have "resolveQuery J s rnd (decodeQuery query) = Returns ?results"
    by (simp add: resolveQuery_def noUsableCriteria_decode [OF assms(3)] GetAll_rows [OF assms(4)])
  then have "handleExtensionQuery J s rnd r
               = Returns (writeJSON HTTPAPIVersion StatusOK (queryResponse ?results))"
    using assms(1,2) by (simp add: handleExtensionQuery_def)
  moreover have "list_all2 (\<lambda>info row. \<exists>k. info = fst (createExtensionInfo s rnd k (toExtension J row)))
                   ?results ([] @ ?rs)"
    by (rule appendInfos_built) simp
  ultimately show ?thesis by auto
qed

lemma mset_take_subset: "mset (take n xs) \<subseteq># mset xs"
proof -
  have "mset xs = mset (take n xs) + mset (drop n xs)"
    by (metis append_take_drop_id mset_append)
  then show ?thesis by simp
qed

lemma length_manyRows: "length (manyRows n) = n"
  by (simp add: manyRows_def)

lemma noUsableCriteria_empty: "noUsableCriteria []"
  by (simp add: noUsableCriteria_def noTopLevelQuery_def firstFilterCriteria_def index_def)

text \<open>
  C3, as the specification states it, fails: on a catalog of 10001 records (with distinct
  identifiers) the request with the empty object as body gets 10000 extensions and a
  TotalCount of 10000.
\<close>

theorem full_dump_counterexample:
  "length (rows (db (extManager (sampleServer (manyRows 10001))))) = 10001
   \<and> distinct (map db_ID (manyRows 10001))
   \<and> noUsableCriteria []
   \<and> length (extensionsOf (handleExtensionQuery sampleJSON (sampleServer (manyRows 10001)) sampleRnd
        \<lparr> reqMethod = ''POST'', reqBody = Some (VMap []) \<rparr>)) = 10000
   \<and> totalCountOf (handleExtensionQuery sampleJSON (sampleServer (manyRows 10001)) sampleRnd
        \<lparr> reqMethod = ''POST'', reqBody = Some (VMap []) \<rparr>) = Some 10000"
proof -
  let ?s = "sampleServer (manyRows 10001)"
  let ?r = "\<lparr> reqMethod = ''POST'', reqBody = Some (VMap []) \<rparr>"
  have rows: "rows (db (extManager ?s)) = manyRows 10001"
    and ok: "fault (db (extManager ?s)) = None"
    and ord: "sqlOrderBy (db (extManager ?s)) = rev"
    by (simp_all add: sampleServer_def sampleDatabase_def)
  have "inj (\<lambda>k. db_ID (sampleRow ''p'' (replicate k (CHR ''a'')) ''1.0.0'' (int k)))"
  proof (rule injI)
    fix x y
    assume "db_ID (sampleRow ''p'' (replicate x (CHR ''a'')) ''1.0.0'' (int x))
              = db_ID (sampleRow ''p'' (replicate y (CHR ''a'')) ''1.0.0'' (int y))"
    then have "replicate x (CHR ''a'') = replicate y (CHR ''a'')"
      by (simp add: sampleRow_def)
    then have "length (replicate x (CHR ''a'')) = length (replicate y (CHR ''a''))"
      by (rule arg_cong)
    then show "x = y" by simp
  qed
  then have dist: "distinct (map db_ID (manyRows 10001))"
    by (simp add: manyRows_def distinct_map comp_def inj_on_def)
  obtain results where
    out: "handleExtensionQuery sampleJSON ?s sampleRnd ?r
            = Returns (writeJSON HTTPAPIVersion StatusOK (queryResponse results))"
    and built: "list_all2 (\<lambda>info row. \<exists>k. info = fst (createExtensionInfo ?s sampleRnd k (toExtension sampleJSON row)))
                  results (take 10000 (sqlOrderBy (db (extManager ?s)) (rows (db (extManager ?s)))))"
    using query_without_criteria [of ?r "[]" ?s sampleJSON sampleRnd] noUsableCriteria_empty ok
    by (auto simp: decodeMap_def)
  have "length results = 10000"
    using list_all2_lengthD [OF built] by (simp add: rows ord length_manyRows)
  then show ?thesis
    using rows dist noUsableCriteria_empty out
    by (simp add: length_manyRows extensionsOf_queryResponse totalCountOf_queryResponse)
qed

text \<open>
  C3 (amended): when the catalog can be read and the engine answers the query with the
  stored rows (each once, in whatever order), a POST query whose body has no non-empty
  top-level query string and no criterion of filterType 10 or 4 in its first filter is
  answered with status 200; \<^verbatim>\<open>results[0].extensions\<close> holds min(10000, n) entries for a
  catalog of n records, each entry the extension object built from a different stored
  record, and TotalCount is the number of entries returned. So a catalog of at most 10000
  records is returned whole, one entry for every record. Nothing is said about the order of
  the entries.
\<close>

theorem full_dump_up_to_limit:
  assumes "reqMethod r = ''POST''"
    and "decodeMap (reqBody r) = Some query"
    and "noUsableCriteria query"
    and "fault (db (extManager s)) = None"
    and "mset (sqlOrderBy (db (extManager s)) (rows (db (extManager s))))
           = mset (rows (db (extManager s)))"
  shows "statusOf (handleExtensionQuery J s rnd r) = Some 200
       \<and> (\<exists>served.
             mset served \<subseteq># mset (rows (db (extManager s)))
           \<and> list_all2 (\<lambda>info row. \<exists>k. info = fst (createExtensionInfo s rnd k (toExtension J row)))
               (extensionsOf (handleExtensionQuery J s rnd r)) served
           \<and> (length (rows (db (extManager s))) \<le> 10000 \<longrightarrow>
                mset served = mset (rows (db (extManager s)))))
       \<and> length (extensionsOf (handleExtensionQuery J s rnd r))
           = min 10000 (length (rows (db (extManager s))))
       \<and> totalCountOf (handleExtensionQuery J s rnd r)
           = Some (int (min 10000 (length (rows (db (extManager s))))))"
proof -
  let ?rows = "rows (db (extManager s))"
  let ?ordered = "sqlOrderBy (db (extManager s)) ?rows"
  obtain results where
    out: "handleExtensionQuery J s rnd r
            = Returns (writeJSON HTTPAPIVersion StatusOK (queryResponse results))"
    and built: "list_all2 (\<lambda>info row. \<exists>k. info = fst (createExtensionInfo s rnd k (toExtension J row)))
                  results (take 10000 ?ordered)"
    using query_without_criteria [OF assms(1-4)] by blast
  have same_length: "length ?ordered = length ?rows"
    using assms(5) by (rule mset_eq_length)
  have len: "length results = min 10000 (length ?rows)"
    using list_all2_lengthD [OF built] same_length by (simp add: min.commute)
  have sub: "mset (take 10000 ?ordered) \<subseteq># mset ?rows"
    using mset_take_subset [of 10000 ?ordered] assms(5) by simp
  have whole: "mset (take 10000 ?ordered) = mset ?rows" if "length ?rows \<le> 10000"
    using that same_length assms(5) by simp
  have "\<exists>served.
          mset served \<subseteq># mset ?rows
        \<and> list_all2 (\<lambda>info row. \<exists>k. info = fst (createExtensionInfo s rnd k (toExtension J row)))
            results served
        \<and> (length ?rows \<le> 10000 \<longrightarrow> mset served = mset ?rows)"
    using sub built whole by blast
  then show ?thesis
    using out len
    by (simp add: extensionsOf_queryResponse totalCountOf_queryResponse statusOf_writeJSON
        StatusOK_def)
qed

theorem full_dump_up_to_limit_witness:
  "reqMethod \<lparr> reqMethod = ''POST'', reqBody = Some (VMap []) \<rparr> = ''POST''
   \<and> decodeMap (reqBody \<lparr> reqMethod = ''POST'', reqBody = Some (VMap []) \<rparr>) = Some []
   \<and> noUsableCriteria []
   \<and> fault (db (extManager (sampleServer (manyRows 3)))) = None
   \<and> mset (sqlOrderBy (db (extManager (sampleServer (manyRows 3))))
        (rows (db (extManager (sampleServer (manyRows 3))))))
       = mset (rows (db (extManager (sampleServer (manyRows 3)))))
   \<and> length (rows (db (extManager (sampleServer (manyRows 3))))) \<le> 10000
   \<and> length (extensionsOf (handleExtensionQuery sampleJSON (sampleServer (manyRows 3)) sampleRnd
        \<lparr> reqMethod = ''POST'', reqBody = Some (VMap []) \<rparr>)) = 3
   \<and> totalCountOf (handleExtensionQuery sampleJSON (sampleServer (manyRows 3)) sampleRnd
        \<lparr> reqMethod = ''POST'', reqBody = Some (VMap []) \<rparr>) = Some 3"
proof -
  let ?s = "sampleServer (manyRows 3)"
  let ?r = "\<lparr> reqMethod = ''POST'', reqBody = Some (VMap []) \<rparr>"
  have h1: "reqMethod ?r = ''POST''" by simp
  have h2: "decodeMap (reqBody ?r) = Some []" by (simp add: decodeMap_def)
  have h4: "fault (db (extManager ?s)) = None"
    by (simp add: sampleServer_def sampleDatabase_def)
  have h5: "mset (sqlOrderBy (db (extManager ?s)) (rows (db (extManager ?s))))
              = mset (rows (db (extManager ?s)))"
    by (simp add: sampleServer_def sampleDatabase_def)
  have n: "length (rows (db (extManager ?s))) = 3"
    by (simp add: sampleServer_def sampleDatabase_def length_manyRows)
  from full_dump_up_to_limit [OF h1 h2 noUsableCriteria_empty h4 h5, of sampleJSON sampleRnd]
  show ?thesis
    using h2 h4 h5 n noUsableCriteria_empty by simp
qed

section \<open>Lookup by identifier in a query\<close>

lemma query_by_identifier_known:
  assumes "reqMethod r = ''POST''"
    and "decodeMap (reqBody r) = Some query"
    and "decodeQuery query = (searchQuery, extensionId)"
    and "extensionId \<noteq> []"
    and "fault (db (extManager s)) = None"
    and "find (\<lambda>row. db_ID row = extensionId) (rows (db (extManager s))) = Some row"
  shows "handleExtensionQuery J s rnd r
           = Returns (writeJSON HTTPAPIVersion StatusOK
               (queryResponse [fst (createExtensionInfo s rnd 0 (toExtension J row))]))"
proof -
  have "resolveQuery J s rnd (decodeQuery query)
          = Returns [fst (createExtensionInfo s rnd 0 (toExtension J row))]"
    using assms(3,4) GetByID_present [OF assms(5,6), of J]
      createExtensionInfo_not_nil [of s rnd 0 "toExtension J row"]
    by (auto simp: resolveQuery_def split: prod.splits)
  then show ?thesis
    using assms(1,2) by (simp add: handleExtensionQuery_def)
qed

lemma query_by_identifier_unknown:
  assumes "reqMethod r = ''POST''"
    and "decodeMap (reqBody r) = Some query"
    and "decodeQuery query = (searchQuery, extensionId)"
    and "extensionId \<noteq> []"
    and "fault (db (extManager s)) = None"
    and "find (\<lambda>row. db_ID row = extensionId) (rows (db (extManager s))) = None"
  shows "handleExtensionQuery J s rnd r = Panics nilDereference"
proof -
  have "resolveQuery J s rnd (decodeQuery query) = Panics nilDereference"
    using assms(3,4) GetByID_absent [OF assms(5,6), of J]
    by (simp add: resolveQuery_def)
  then show ?thesis
    using assms(1,2) by (simp add: handleExtensionQuery_def)
qed

lemma decode_single_identifier:
  "decodeQuery [(''filters'', VSlice [VMap [(''criteria'', VSlice [criterion 4 v])]])] = ([], v)"
  by (simp add: decodeQuery_def scanFilters_def index_def criterion_def)

lemma find_manyRows_2:
  "find (\<lambda>row. db_ID row = ''p.a'') (manyRows 2) = Some (sampleRow ''p'' ''a'' ''1.0.0'' 1)"
  "find (\<lambda>row. db_ID row = ''p.zzz'') (manyRows 2) = None"
proof -
  have "manyRows 2 = [sampleRow ''p'' [] ''1.0.0'' 0, sampleRow ''p'' ''a'' ''1.0.0'' 1]"
    by (simp add: manyRows_def upt_rec numeral_2_eq_2)
  then show "find (\<lambda>row. db_ID row = ''p.a'') (manyRows 2) = Some (sampleRow ''p'' ''a'' ''1.0.0'' 1)"
    and "find (\<lambda>row. db_ID row = ''p.zzz'') (manyRows 2) = None"
    by (simp_all add: sampleRow_def)
qed

text \<open>
  C4, evaluated on a catalog of the two records \<^verbatim>\<open>p.\<close> and \<^verbatim>\<open>p.a\<close>: the query for the
  stored identifier \<^verbatim>\<open>p.a\<close> is answered with status 200, one extension and a TotalCount
  of 1; the query for the identifier \<^verbatim>\<open>p.zzz\<close>, which is not stored, is not answered with
  zero extensions: the handler panics.
\<close>

theorem query_unknown_identifier_panics:
  "statusOf (handleExtensionQuery sampleJSON (sampleServer (manyRows 2)) sampleRnd
     \<lparr> reqMethod = ''POST'', reqBody = Some (criteriaBody [criterion 4 ''p.a'']) \<rparr>) = Some 200
   \<and> length (extensionsOf (handleExtensionQuery sampleJSON (sampleServer (manyRows 2)) sampleRnd
     \<lparr> reqMethod = ''POST'', reqBody = Some (criteriaBody [criterion 4 ''p.a'']) \<rparr>)) = 1
   \<and> totalCountOf (handleExtensionQuery sampleJSON (sampleServer (manyRows 2)) sampleRnd
     \<lparr> reqMethod = ''POST'', reqBody = Some (criteriaBody [criterion 4 ''p.a'']) \<rparr>) = Some 1
   \<and> handleExtensionQuery sampleJSON (sampleServer (manyRows 2)) sampleRnd
     \<lparr> reqMethod = ''POST'', reqBody = Some (criteriaBody [criterion 4 ''p.zzz'']) \<rparr>
     = Panics nilDereference"
proof -
  let ?s = "sampleServer (manyRows 2)"
  have ok: "fault (db (extManager ?s)) = None"
    and rows: "rows (db (extManager ?s)) = manyRows 2"
    by (simp_all add: sampleServer_def sampleDatabase_def)
  have body: "decodeMap (reqBody \<lparr> reqMethod = ''POST'', reqBody = Some (criteriaBody [criterion 4 v]) \<rparr>)
                = Some [(''filters'', VSlice [VMap [(''criteria'', VSlice [criterion 4 v])]])]" for v
    by (simp add: decodeMap_def criteriaBody_def)
  have known: "handleExtensionQuery sampleJSON ?s sampleRnd
                 \<lparr> reqMethod = ''POST'', reqBody = Some (criteriaBody [criterion 4 ''p.a'']) \<rparr>
               = Returns (writeJSON HTTPAPIVersion StatusOK (queryResponse
                   [fst (createExtensionInfo ?s sampleRnd 0
                      (toExtension sampleJSON (sampleRow ''p'' ''a'' ''1.0.0'' 1)))]))"
    by (rule query_by_identifier_known [OF _ body decode_single_identifier _ ok])
      (simp_all add: rows find_manyRows_2)
  have unknown: "handleExtensionQuery sampleJSON ?s sampleRnd
                 \<lparr> reqMethod = ''POST'', reqBody = Some (criteriaBody [criterion 4 ''p.zzz'']) \<rparr>
               = Panics nilDereference"
    by (rule query_by_identifier_unknown [OF _ body decode_single_identifier _ ok])
      (simp_all add: rows find_manyRows_2)
  show ?thesis
    unfolding known unknown
    by (simp add: extensionsOf_queryResponse totalCountOf_queryResponse statusOf_writeJSON
        StatusOK_def)
qed

text \<open>
  With the lookup of the gorm version of the package in place of the database/sql one, an
  identifier that is not stored resolves to no record and no panic.
\<close>

lemma GetByID_gorm_absent:
  assumes "find (\<lambda>r. db_ID r = id') (rows (db m)) = None"
  shows "GetByID_gorm J m id' = Returns (None, False)"
  using assms by (simp add: GetByID_gorm_def GetExtensionByID_gorm_def split: option.splits)

section \<open>Asset routing: the version of the request\<close>

text \<open>
  C5: a GET on \<^verbatim>\<open>/_assets/{publisher}/{name}/{version}/{assetType}\<close> for a stored record
  (the row found under \<^verbatim>\<open>publisher.name\<close>) whose version is not the version of the request
  is answered, for every asset type, with status 404 and the JSON envelope of the three
  fields \<^verbatim>\<open>error\<close>, \<^verbatim>\<open>message\<close>, \<^verbatim>\<open>status\<close> with \<^verbatim>\<open>status = 404\<close>; the body is that
  envelope, so nothing of the package is served. The message is \<^verbatim>\<open>Version not found\<close>
  when the catalog answers and \<^verbatim>\<open>Extension not found\<close> when the lookup fails.
\<close>

theorem asset_version_mismatch_not_found:
  assumes "find (\<lambda>row. db_ID row = publisher @ ''.'' @ name) (rows (db (extManager s))) = Some row"
    and "db_Version row \<noteq> version"
  shows "handleVSCodeAsset J zfs s ''GET'' publisher name version assetType
           = Returns (Reply 404 ''application/json''
               (JSONBody (VMap
                  [(''error'', VString ''Not Found''),
                   (''message'', VString (if fault (db (extManager s)) = None
                                          then ''Version not found'' else ''Extension not found'')),
                   (''status'', VInt 404)])))"
proof (cases "fault (db (extManager s))")
  case None
  from GetByID_present [OF None assms(1), of J] assms(2) None show ?thesis
    by (simp add: handleVSCodeAsset_def toExtension_def writeError_def writeJSON_def
        StatusNotFound_def StatusText_def jsonContentType_def)
next
  case (Some err)
  from GetByID_fault [OF Some, of J] Some show ?thesis
    by (simp add: handleVSCodeAsset_def writeError_def writeJSON_def
        StatusNotFound_def StatusText_def jsonContentType_def)
qed

theorem asset_version_mismatch_not_found_witness:
  "find (\<lambda>row. db_ID row = ''p'' @ ''.'' @ ''a'') (rows (db (extManager (sampleServer (manyRows 2)))))
     = Some (sampleRow ''p'' ''a'' ''1.0.0'' 1)
   \<and> db_Version (sampleRow ''p'' ''a'' ''1.0.0'' 1) \<noteq> ''2.0.0''
   \<and> handleVSCodeAsset sampleJSON (\<lambda>path. None) (sampleServer (manyRows 2)) ''GET'' ''p'' ''a'' ''2.0.0''
        ''Microsoft.VisualStudio.Services.VSIXPackage''
      = Returns (Reply 404 ''application/json''
          (JSONBody (VMap
             [(''error'', VString ''Not Found''),
              (''message'', VString ''Version not found''),
              (''status'', VInt 404)])))"
proof -
  let ?s = "sampleServer (manyRows 2)"
  have rows: "rows (db (extManager ?s)) = manyRows 2"
    and ok: "fault (db (extManager ?s)) = None"
    by (simp_all add: sampleServer_def sampleDatabase_def)
  have h1: "find (\<lambda>row. db_ID row = ''p'' @ ''.'' @ ''a'') (rows (db (extManager ?s)))
              = Some (sampleRow ''p'' ''a'' ''1.0.0'' 1)"
    using find_manyRows_2(1) by (simp add: rows)
  have h2: "db_Version (sampleRow ''p'' ''a'' ''1.0.0'' 1) \<noteq> ''2.0.0''"
    by (simp add: sampleRow_def)
  from asset_version_mismatch_not_found [OF h1 h2, of sampleJSON "\<lambda>path. None"
      "''Microsoft.VisualStudio.Services.VSIXPackage''"] h1 h2 ok
  show ?thesis by simp
qed

section \<open>Localization of the manifest\<close>

lemma Contains_char: "Contains s [c] \<longleftrightarrow> c \<in> set s"
  by (induction s) (auto simp: Contains_def sublist_Cons_right)

lemma dropWhile_percent_absent:
  assumes "CHR ''%'' \<notin> set xs"
  shows "dropWhile (\<lambda>c. c \<in> set ''%'') xs = xs"
  using assms by (cases xs) auto

lemma Trim_placeholder:
  assumes "CHR ''%'' \<notin> set key"
  shows "Trim (''%'' @ key @ ''%'') ''%'' = key"
proof (cases key)
  case Nil
  then show ?thesis by (simp add: Trim_def)
next
  case (Cons c cs)
  with assms have "c \<noteq> CHR ''%''" by auto
  then have front: "dropWhile (\<lambda>c. c \<in> set ''%'') (''%'' @ key @ ''%'') = key @ ''%''"
    by (simp add: Cons)
  have "CHR ''%'' \<notin> set (rev key)"
    using assms by simp
  then have rear: "dropWhile (\<lambda>c. c \<in> set ''%'') (rev key) = rev key"
    by (rule dropWhile_percent_absent)
  have "dropWhile (\<lambda>c. c \<in> set ''%'') (rev (key @ ''%'')) = rev key"
    using rear by simp
  then show ?thesis
    unfolding Trim_def front by simp
qed

lemma localized_placeholder:
  assumes "CHR ''%'' \<notin> set key"
  shows "localized nls (''%'' @ key @ ''%'')
           = (case nls key of
                None \<Rightarrow> ''%'' @ key @ ''%''
              | Some msg \<Rightarrow> if msg = [] then ''%'' @ key @ ''%'' else msg)"
  by (simp add: localized_def Trim_placeholder [OF assms] del: append.simps)

lemma replaceLocalizedStrings_fields:
  "pkg_DisplayName (replaceLocalizedStrings pkg nls) = localized nls (pkg_DisplayName pkg)"
  "pkg_Description (replaceLocalizedStrings pkg nls) = localized nls (pkg_Description pkg)"
  by (auto simp: replaceLocalizedStrings_def localized_def nlsIndex_def Let_def
      split: option.splits)

lemma nlsOfRaw_string:
  assumes "map_of raw key = Some (VString v)"
  shows "nlsOfRaw raw key = Some v"
  using assms by (simp add: nlsOfRaw_def)

lemma nlsOfRaw_message:
  assumes "map_of raw key = Some (VMap entry)" and "index entry ''message'' = VString msg"
  shows "nlsOfRaw raw key = Some msg"
  using assms by (simp add: nlsOfRaw_def)

lemma nlsOfRaw_absent:
  assumes "map_of raw key = None"
  shows "nlsOfRaw raw key = None"
  using assms by (simp add: nlsOfRaw_def)

lemma readNLSData_sample: "readNLSData sampleUnmarshal sampleArchive = Some (nlsOfRaw sampleTable)"
  by (simp add: sampleArchive_def sampleUnmarshal_def packageNLSPath_def decodeMap_def)

text \<open>
  C6, as the specification states it, fails: the display name \<^verbatim>\<open>Hello %name%\<close> contains
  the placeholder \<^verbatim>\<open>%name%\<close> and the table maps \<^verbatim>\<open>name\<close> to \<^verbatim>\<open>World\<close>; substituting the
  placeholder gives \<^verbatim>\<open>Hello World\<close>, and normalization leaves \<^verbatim>\<open>Hello %name%\<close>.
\<close>

theorem localization_embedded_placeholder_counterexample:
  "nlsOfRaw sampleTable ''name'' = Some ''World''
   \<and> substitutePlaceholder (nlsOfRaw sampleTable) ''Hello %name%'' = ''Hello World''
   \<and> pkg_DisplayName (processLocalization sampleUnmarshal sampleArchive
        (samplePackage ''Hello %name%'' [])) = ''Hello %name%''"
proof -
  have t: "nlsOfRaw sampleTable ''name'' = Some ''World''"
    by (simp add: nlsOfRaw_def sampleTable_def)
  have s: "substitutePlaceholder (nlsOfRaw sampleTable) ''Hello %name%'' = ''Hello World''"
    by (simp add: substitutePlaceholder_def t)
  have k: "Trim ''Hello %name%'' ''%'' = ''Hello %name''"
    by (simp add: Trim_def)
  have "nlsOfRaw sampleTable ''Hello %name'' = None"
    by (simp add: nlsOfRaw_def sampleTable_def)
  then have "localized (nlsOfRaw sampleTable) ''Hello %name%'' = ''Hello %name%''"
    by (simp add: localized_def k)
  then have "pkg_DisplayName (processLocalization sampleUnmarshal sampleArchive
               (samplePackage ''Hello %name%'' [])) = ''Hello %name%''"
    by (simp add: processLocalization_def readNLSData_sample replaceLocalizedStrings_fields
        samplePackage_def)
  with t s show ?thesis by simp
qed

text \<open>
  C6 (amended): when displayName or description contains a \<^verbatim>\<open>%\<close> and the localization
  table \<open>nls\<close> is loaded from the archive, each of the two fields is looked up as a whole,
  stripped of its leading and trailing \<^verbatim>\<open>%\<close>: a non-empty message replaces the whole
  field, and with no entry (or an empty message) the field is left untouched. So a field
  that is exactly \<^verbatim>\<open>%key%\<close> becomes the message of \<open>key\<close>, or stays \<^verbatim>\<open>%key%\<close> when the
  table has no entry for \<open>key\<close>.
\<close>

theorem localization_replaces_whole_field:
  assumes "readNLSData unmarshal entries = Some nls"
    and "Contains (pkg_DisplayName pkg) ''%'' \<or> Contains (pkg_Description pkg) ''%''"
  shows "pkg_DisplayName (processLocalization unmarshal entries pkg) = localized nls (pkg_DisplayName pkg)
       \<and> pkg_Description (processLocalization unmarshal entries pkg) = localized nls (pkg_Description pkg)
       \<and> (CHR ''%'' \<notin> set key \<longrightarrow>
            (\<forall>msg. nls key = Some msg \<and> msg \<noteq> [] \<longrightarrow> localized nls (''%'' @ key @ ''%'') = msg)
          \<and> (nls key = None \<longrightarrow> localized nls (''%'' @ key @ ''%'') = ''%'' @ key @ ''%''))"
proof -
  have "processLocalization unmarshal entries pkg = replaceLocalizedStrings pkg nls"
    using assms by (auto simp: processLocalization_def)
  then show ?thesis
    by (auto simp: replaceLocalizedStrings_fields localized_placeholder simp del: append.simps)
qed

theorem localization_replaces_whole_field_witness:
  "readNLSData sampleUnmarshal sampleArchive = Some (nlsOfRaw sampleTable)
   \<and> Contains (pkg_DisplayName (samplePackage ''%displayName%'' ''%description%'')) ''%''
   \<and> CHR ''%'' \<notin> set ''description''
   \<and> nlsOfRaw sampleTable ''description'' = Some ''Python language support''
   \<and> nlsOfRaw sampleTable ''missing'' = None
   \<and> pkg_DisplayName (processLocalization sampleUnmarshal sampleArchive
        (samplePackage ''%displayName%'' ''%description%'')) = ''Python''
   \<and> pkg_Description (processLocalization sampleUnmarshal sampleArchive
        (samplePackage ''%displayName%'' ''%description%'')) = ''Python language support''
   \<and> pkg_DisplayName (processLocalization sampleUnmarshal sampleArchive
        (samplePackage ''%missing%'' ''%description%'')) = ''%missing%''"
proof -
  let ?pkg = "samplePackage ''%displayName%'' ''%description%''"
  let ?pkg' = "samplePackage ''%missing%'' ''%description%''"
  have c: "Contains (pkg_DisplayName ?pkg) ''%''" "Contains (pkg_DisplayName ?pkg') ''%''"
    by (simp_all add: samplePackage_def Contains_char)
  have k: "CHR ''%'' \<notin> set ''description''" "CHR ''%'' \<notin> set ''displayName''"
    "CHR ''%'' \<notin> set ''missing''"
    by simp_all
  have t: "nlsOfRaw sampleTable ''description'' = Some ''Python language support''"
    "nlsOfRaw sampleTable ''displayName'' = Some ''Python''"
    "nlsOfRaw sampleTable ''missing'' = None"
    by (simp_all add: nlsOfRaw_def sampleTable_def index_def)
  have f: "pkg_DisplayName ?pkg = ''%'' @ ''displayName'' @ ''%''"
    "pkg_Description ?pkg = ''%'' @ ''description'' @ ''%''"
    "pkg_DisplayName ?pkg' = ''%'' @ ''missing'' @ ''%''"
    by (simp_all add: samplePackage_def)
  have a: "localized (nlsOfRaw sampleTable) (''%'' @ ''description'' @ ''%'') = ''Python language support''"
    using localization_replaces_whole_field [OF readNLSData_sample disjI1 [OF c(1)], of "''description''"]
      k(1) t(1) by blast
  have b: "localized (nlsOfRaw sampleTable) (''%'' @ ''displayName'' @ ''%'') = ''Python''"
    using localization_replaces_whole_field [OF readNLSData_sample disjI1 [OF c(1)], of "''displayName''"]
      k(2) t(2) by blast
  have m: "localized (nlsOfRaw sampleTable) (''%'' @ ''missing'' @ ''%'') = ''%'' @ ''missing'' @ ''%''"
    using localization_replaces_whole_field [OF readNLSData_sample disjI1 [OF c(2)], of "''missing''"]
      k(3) t(3) by blast
  have "pkg_DisplayName (processLocalization sampleUnmarshal sampleArchive ?pkg) = ''Python''"
    "pkg_Description (processLocalization sampleUnmarshal sampleArchive ?pkg) = ''Python language support''"
    using localization_replaces_whole_field [OF readNLSData_sample disjI1 [OF c(1)], of "''description''"]
      a b unfolding f by simp_all
  moreover have "pkg_DisplayName (processLocalization sampleUnmarshal sampleArchive ?pkg') = ''%missing%''"
    using localization_replaces_whole_field [OF readNLSData_sample disjI1 [OF c(2)], of "''missing''"]
      m unfolding f by simp
  ultimately show ?thesis
    using readNLSData_sample c(1) t(1,3) by simp
qed

section \<open>Fetching a package twice\<close>

lemma os_MkdirAll_dirs:
  assumes "os_MkdirAll w path = Some w1"
  shows "path \<in> dirs w1" and "requests w1 = requests w"
  using assms by (auto simp: os_MkdirAll_def split: if_splits)

lemma os_MkdirAll_again:
  assumes "path \<in> dirs w"
  shows "os_MkdirAll w path = Some w"
  using assms by (simp add: os_MkdirAll_def)

lemma downloadFile_success:
  assumes "downloadFile w url filePath = (None, w')"
  shows "files w' filePath \<noteq> None" and "dirs w' = dirs w"
  using assms
  by (auto simp: downloadFile_def os_Create_def Let_def split: httpResult.splits if_splits)

lemma downloadFile_OpenVSX_eq: "downloadFile_OpenVSX = downloadFile"
  by (intro ext) (simp add: downloadFile_OpenVSX_def downloadFile_def)

lemma DownloadExtension_OpenVSX_eq: "DownloadExtension_OpenVSX = DownloadExtension"
proof (intro ext)
  fix w info targetDir
  show "DownloadExtension_OpenVSX w info targetDir = DownloadExtension w info targetDir"
    unfolding DownloadExtension_OpenVSX_def DownloadExtension_def downloadFile_OpenVSX_eq
    by (rule refl)
qed

lemma DownloadExtension_second:
  assumes "DownloadExtension w info targetDir = (Inr res, w')"
  shows "DownloadExtension w' info targetDir
           = (Inr \<lparr> res_FilePath = res_FilePath res, WasDownloaded = False \<rparr>, w')"
proof -
  let ?path = "filepath_Join targetDir (info_Name info @ ''-'' @ info_Version info @ ''.vsix'')"
  obtain w1 where mk: "os_MkdirAll w targetDir = Some w1"
    using assms by (auto simp: DownloadExtension_def split: option.splits)
  have d1: "targetDir \<in> dirs w1"
    using os_MkdirAll_dirs(1) [OF mk] .
  show ?thesis
  proof (cases "os_Stat w1 ?path")
    case True
    with assms mk have "w' = w1" and "res_FilePath res = ?path"
      by (auto simp: DownloadExtension_def Let_def)
    with True d1 show ?thesis
      by (simp add: DownloadExtension_def os_MkdirAll_again Let_def)
  next
    case False
    with assms mk have dl: "downloadFile w1 (info_DownloadURL info) ?path = (None, w')"
      and p: "res_FilePath res = ?path"
      by (auto simp: DownloadExtension_def Let_def split: prod.splits option.splits)
    have "targetDir \<in> dirs w'" and "os_Stat w' ?path"
      using downloadFile_success [OF dl] d1 by (simp_all add: os_Stat_def)
    with p show ?thesis
      by (simp add: DownloadExtension_def os_MkdirAll_again Let_def)
  qed
qed

text \<open>
  C9, as the specification states it, fails: when the upstream answers the download URL
  with status 404, the first call fails after one request, and the second call, made on the
  world the first one left, makes the request again and fails again: two requests, and no
  result with \<^verbatim>\<open>WasDownloaded = false\<close>.
\<close>

theorem fetch_twice_counterexample:
  "fst (DownloadExtension (emptyWorld notFoundNet) sampleInfo ''data/extensions'')
     = Inl (InvalidStatusCode 404)
   \<and> fst (DownloadExtension
        (snd (DownloadExtension (emptyWorld notFoundNet) sampleInfo ''data/extensions''))
        sampleInfo ''data/extensions'')
     = Inl (InvalidStatusCode 404)
   \<and> requests (snd (DownloadExtension
        (snd (DownloadExtension (emptyWorld notFoundNet) sampleInfo ''data/extensions''))
        sampleInfo ''data/extensions''))
     = [''https://upstream/python.vsix'', ''https://upstream/python.vsix'']"
  by (simp add: DownloadExtension_def downloadFile_def os_MkdirAll_def os_Stat_def
      emptyWorld_def notFoundNet_def sampleInfo_def sample_paths Let_def)

text \<open>
  C9 (amended): for every ExtensionInfo, target directory and state of the world, and for
  both provider variants, when the first call of \<^verbatim>\<open>DownloadExtension\<close> returns a result,
  a second call made in succession returns the same file path with
  \<^verbatim>\<open>WasDownloaded = false\<close> and leaves the world as it was: no request is made and no file
  is written.
\<close>

theorem fetch_twice_after_success:
  "(DownloadExtension w info targetDir = (Inr res, w') \<longrightarrow>
      DownloadExtension w' info targetDir
        = (Inr \<lparr> res_FilePath = res_FilePath res, WasDownloaded = False \<rparr>, w')
    \<and> requests (snd (DownloadExtension w' info targetDir)) = requests w')
   \<and> (DownloadExtension_OpenVSX w info targetDir = (Inr res, w') \<longrightarrow>
      DownloadExtension_OpenVSX w' info targetDir
        = (Inr \<lparr> res_FilePath = res_FilePath res, WasDownloaded = False \<rparr>, w')
    \<and> requests (snd (DownloadExtension_OpenVSX w' info targetDir)) = requests w')"
  using DownloadExtension_second [of w info targetDir res w']
  by (simp add: DownloadExtension_OpenVSX_eq)

theorem fetch_twice_after_success_witness:
  "fst (DownloadExtension (emptyWorld servingNet) sampleInfo ''data/extensions'')
     = Inr \<lparr> res_FilePath = ''data/extensions/python-1.0.0.vsix'', WasDownloaded = True \<rparr>
   \<and> fst (DownloadExtension_OpenVSX (emptyWorld servingNet) sampleInfo ''data/extensions'')
     = Inr \<lparr> res_FilePath = ''data/extensions/python-1.0.0.vsix'', WasDownloaded = True \<rparr>
   \<and> fst (DownloadExtension
        (snd (DownloadExtension (emptyWorld servingNet) sampleInfo ''data/extensions''))
        sampleInfo ''data/extensions'')
     = Inr \<lparr> res_FilePath = ''data/extensions/python-1.0.0.vsix'', WasDownloaded = False \<rparr>
   \<and> fst (DownloadExtension_OpenVSX
        (snd (DownloadExtension_OpenVSX (emptyWorld servingNet) sampleInfo ''data/extensions''))
        sampleInfo ''data/extensions'')
     = Inr \<lparr> res_FilePath = ''data/extensions/python-1.0.0.vsix'', WasDownloaded = False \<rparr>
   \<and> requests (snd (DownloadExtension
        (snd (DownloadExtension (emptyWorld servingNet) sampleInfo ''data/extensions''))
        sampleInfo ''data/extensions''))
     = [''https://upstream/python.vsix'']"
proof -
  let ?w = "emptyWorld servingNet"
  let ?res = "\<lparr> res_FilePath = ''data/extensions/python-1.0.0.vsix'', WasDownloaded = True \<rparr>"
  have first: "fst (DownloadExtension ?w sampleInfo ''data/extensions'') = Inr ?res"
    by (simp add: DownloadExtension_def downloadFile_def os_MkdirAll_def os_Stat_def os_Create_def
        emptyWorld_def servingNet_def sampleInfo_def sample_paths Let_def)
  have req: "requests (snd (DownloadExtension ?w sampleInfo ''data/extensions''))
               = [''https://upstream/python.vsix'']"
    by (simp add: DownloadExtension_def downloadFile_def os_MkdirAll_def os_Stat_def os_Create_def
        emptyWorld_def servingNet_def sampleInfo_def sample_paths Let_def)
  have run: "DownloadExtension ?w sampleInfo ''data/extensions''
               = (Inr ?res, snd (DownloadExtension ?w sampleInfo ''data/extensions''))"
    using first by (simp add: prod_eq_iff)
  have run': "DownloadExtension_OpenVSX ?w sampleInfo ''data/extensions''
               = (Inr ?res, snd (DownloadExtension_OpenVSX ?w sampleInfo ''data/extensions''))"
    using first by (simp add: prod_eq_iff DownloadExtension_OpenVSX_eq)
  from fetch_twice_after_success [of ?w sampleInfo "''data/extensions''" ?res
      "snd (DownloadExtension ?w sampleInfo ''data/extensions'')"]
    fetch_twice_after_success [of ?w sampleInfo "''data/extensions''" ?res
      "snd (DownloadExtension_OpenVSX ?w sampleInfo ''data/extensions'')"]
    run run' first req
  show ?thesis
    by (simp add: DownloadExtension_OpenVSX_eq)
qed

text \<open>
  A first call that fails is not always repeated: when the body of the 200 answer breaks
  off, \<^verbatim>\<open>downloadFile\<close> has created the file and returns the copy error without removing
  it, and the second call takes the truncated file for the package: it makes no request and
  reports \<^verbatim>\<open>WasDownloaded = false\<close>.
\<close>

lemma fetch_after_broken_body:
  "fst (DownloadExtension (emptyWorld truncatingNet) sampleInfo ''data/extensions'')
     = Inl FailedToWriteFile
   \<and> DownloadExtension
        (snd (DownloadExtension (emptyWorld truncatingNet) sampleInfo ''data/extensions''))
        sampleInfo ''data/extensions''
     = (Inr \<lparr> res_FilePath = ''data/extensions/python-1.0.0.vsix'', WasDownloaded = False \<rparr>,
        snd (DownloadExtension (emptyWorld truncatingNet) sampleInfo ''data/extensions''))
   \<and> requests (snd (DownloadExtension (emptyWorld truncatingNet) sampleInfo ''data/extensions''))
     = [''https://upstream/python.vsix'']
   \<and> files (snd (DownloadExtension (emptyWorld truncatingNet) sampleInfo ''data/extensions''))
        ''data/extensions/python-1.0.0.vsix'' = Some ''by''"
  by (simp add: DownloadExtension_def downloadFile_def os_MkdirAll_def os_Stat_def os_Create_def
      emptyWorld_def truncatingNet_def sampleInfo_def sample_paths Let_def)

section \<open>Replacing all matches\<close>

lemma rmatch_bounds:
  "rmatch re s pos caps = Some (e, caps') \<Longrightarrow> pos \<le> e \<and> e \<le> pos + length s"
  by (induction re s pos caps rule: rmatch.induct)
    (fastforce split: if_splits option.splits)+

lemma findFrom_bounds:
  "findFrom re s pos = Some (a0, a1, caps) \<Longrightarrow> pos \<le> a0 \<and> a0 \<le> a1 \<and> a1 \<le> pos + length s"
proof (induction re s pos rule: findFrom.induct)
  case (1 re pos)
  then show ?case
    by (auto split: option.splits dest: rmatch_bounds)
next
  case (2 re x xs pos)
  then show ?case
    by (fastforce split: option.splits dest: rmatch_bounds)
qed

lemma slice_then_drop:
  assumes "i \<le> j"
  shows "slice s i j @ drop j s = drop i s"
proof -
  have "drop j s = drop (j - i) (drop i s)"
    using assms by simp
  then show ?thesis
    by (simp add: slice_def del: drop_drop)
qed

lemma replaceAll_fixed:
  assumes "lastMatchEnd \<le> searchPos"
    and "list_all (\<lambda>m. \<forall>w. repl m w = (m, w)) (matchesFrom re src searchPos lastMatchEnd)"
  shows "replaceAll re repl src searchPos lastMatchEnd buf w = (buf @ drop lastMatchEnd src, w)"
  using assms
proof (induction re repl src searchPos lastMatchEnd buf w rule: replaceAll.induct)
  case (1 re repl src searchPos lastMatchEnd buf w)
  show ?case
  proof (cases "length src < searchPos")
    case True
    then show ?thesis by (simp add: replaceAll.simps)
  next
    case inside: False
    show ?thesis
    proof (cases "findFrom re (drop searchPos src) searchPos")
      case None
      with inside show ?thesis by (simp add: replaceAll.simps)
    next
      case (Some found)
      obtain a0 a1 caps where found: "found = (a0, a1, caps)"
        by (cases found)
      have b: "searchPos \<le> a0" "a0 \<le> a1"
        using findFrom_bounds [of re "drop searchPos src" searchPos a0 a1 caps] Some found
        by simp_all
      have le: "a1 \<le> max (Suc searchPos) a1" "lastMatchEnd \<le> a0"
        using b "1.prems"(1) by simp_all
      have ms: "matchesFrom re src searchPos lastMatchEnd
                  = (if lastMatchEnd < a1 \<or> a0 = 0
                     then slice src a0 a1 # matchesFrom re src (max (Suc searchPos) a1) a1
                     else matchesFrom re src (max (Suc searchPos) a1) a1)"
        using inside Some found by (subst matchesFrom.simps) simp
      have glue: "slice src lastMatchEnd a0 @ slice src a0 a1 @ drop a1 src = drop lastMatchEnd src"
        using slice_then_drop [OF b(2), of src] slice_then_drop [OF le(2), of src] by simp
      show ?thesis
      proof (cases "lastMatchEnd < a1 \<or> a0 = 0")
        case True
        with ms "1.prems"(2) have fixed: "repl (slice src a0 a1) w = (slice src a0 a1, w)"
          and rest: "list_all (\<lambda>m. \<forall>w. repl m w = (m, w))
                       (matchesFrom re src (max (Suc searchPos) a1) a1)"
          by simp_all
        have "replaceAll re repl src (max (Suc searchPos) a1) a1
                (buf @ slice src lastMatchEnd a0 @ slice src a0 a1) w
              = ((buf @ slice src lastMatchEnd a0 @ slice src a0 a1) @ drop a1 src, w)"
          using "1.IH"(1) [OF inside Some found [symmetric] refl True fixed [symmetric] le(1) rest] .
        then show ?thesis
          using inside Some found True fixed glue by (subst replaceAll.simps) simp
      next
        case False
        with ms "1.prems"(2) have rest: "list_all (\<lambda>m. \<forall>w. repl m w = (m, w))
                       (matchesFrom re src (max (Suc searchPos) a1) a1)"
          by simp
        have "replaceAll re repl src (max (Suc searchPos) a1) a1
                (buf @ slice src lastMatchEnd a0) w
              = ((buf @ slice src lastMatchEnd a0) @ drop a1 src, w)"
          using "1.IH"(2) [OF inside Some found [symmetric] refl False le(1) rest] .
        moreover have "a0 = a1"
          using False b le(2) by simp
        ultimately show ?thesis
          using inside Some found False slice_then_drop [OF le(2), of src]
          by (subst replaceAll.simps) simp
      qed
    qed
  qed
qed

section \<open>The rewriter on references that stay in the document\<close>

lemma ReplaceAllStringFunc_fixed:
  assumes "list_all (\<lambda>m. \<forall>w. repl m w = (m, w)) (allMatches re src)"
  shows "ReplaceAllStringFunc re src repl w = (src, w)"
  using replaceAll_fixed [of 0 0 repl re src "[]" w] assms
  by (simp add: ReplaceAllStringFunc_def allMatches_def)

lemma processImageMatch_inDocument:
  assumes "inDocument (referenceOf (FindStringSubmatch pattern match))"
  shows "processImageMatch ap lib pattern assetsDir extensionID match w = (match, w)"
  using assms by (auto simp: processImageMatch_def inDocument_def Let_def)

lemma processAssetMatch_inDocument:
  assumes "inDocument (referenceOf (FindStringSubmatch pattern match))"
  shows "processAssetMatch ap lib pattern assetsDir extensionID match w = (match, w)"
  using assms by (auto simp: processAssetMatch_def inDocument_def Let_def)

lemma applyPatterns_fixed:
  assumes "list_all (\<lambda>pattern. list_all (\<lambda>m. \<forall>w. f pattern m w = (m, w)) (allMatches pattern content))
             patterns"
  shows "applyPatterns f patterns content w = (content, w)"
  using assms
  by (induction patterns) (simp_all add: ReplaceAllStringFunc_fixed)

lemma list_all_mono':
  assumes "list_all P xs" and "\<And>x. P x \<Longrightarrow> Q x"
  shows "list_all Q xs"
  using assms by (induction xs) auto

lemma processImages_fixed:
  assumes "list_all
       (\<lambda>pattern. list_all (\<lambda>match. inDocument (referenceOf (FindStringSubmatch pattern match)))
                     (allMatches pattern content)) imagePatterns"
  shows "processImages ap lib content assetsDir extensionID w = (content, w)"
  unfolding processImages_def
  by (rule applyPatterns_fixed)
    (rule list_all_mono' [OF assms], erule list_all_mono', simp add: processImageMatch_inDocument)

lemma processOtherAssets_fixed:
  assumes "list_all
       (\<lambda>pattern. list_all (\<lambda>match. inDocument (referenceOf (FindStringSubmatch pattern match)))
                     (allMatches pattern content)) otherPatterns"
  shows "processOtherAssets ap lib content assetsDir extensionID w = (content, w)"
  unfolding processOtherAssets_def
  by (rule applyPatterns_fixed)
    (rule list_all_mono' [OF assms], erule list_all_mono', simp add: processAssetMatch_inDocument)

lemma sampleReadme_matches:
  "allMatches markdownImage sampleReadme = [''![logo](data:image/png;base64,AAAA)'']"
  "allMatches imgTag sampleReadme = [''<img src=\"#x\">'']"
  "allMatches markdownImageTitle sampleReadme = []"
  "allMatches linkTag sampleReadme = []"
  "allMatches scriptTag sampleReadme = []"
  "allMatches markdownLink sampleReadme = [''[logo](data:image/png;base64,AAAA)'', ''[top](#top)'']"
  by (simp_all add: allMatches_def matchesFrom.simps sampleReadme_def markdownImage_def imgTag_def
      markdownImageTitle_def linkTag_def scriptTag_def markdownLink_def lits_def quotes_def
      whitespace_def slice_def)

lemma sampleReadme_local: "onlyInDocumentReferences sampleReadme"
  by (simp add: onlyInDocumentReferences_def imagePatterns_def otherPatterns_def
      sampleReadme_matches)
    (simp add: FindStringSubmatch_def referenceOf_def inDocument_def HasPrefix_def
      markdownImage_def imgTag_def markdownLink_def lits_def quotes_def slice_def)

text \<open>
  C8: when the asset directory of the extension can be created (or the content is empty),
  \<^verbatim>\<open>ProcessReadme\<close> returns a content whose references, as the six expressions of the
  rewriter find them, are all \<^verbatim>\<open>data:\<close> URIs or \<^verbatim>\<open>#\<close> anchors exactly as it was given;
  the log of requests is the same afterwards (no fetch is made) and no file is written.
\<close>

theorem rewriter_identity_on_in_document_references:
  assumes "onlyInDocumentReferences content"
    and "os_MkdirAll w (filepath_Join (ap_assetsDir ap) extensionID) = Some w1"
  shows "fst (ProcessReadme ap lib w content extensionID) = Inr content
       \<and> requests (snd (ProcessReadme ap lib w content extensionID)) = requests w
       \<and> files (snd (ProcessReadme ap lib w content extensionID)) = files w"
proof (cases "content = []")
  case True
  then show ?thesis by (simp add: ProcessReadme_def)
next
  case False
  have im: "processImages ap lib content (filepath_Join (ap_assetsDir ap) extensionID) extensionID w1
              = (content, w1)"
    using assms(1) by (intro processImages_fixed) (simp add: onlyInDocumentReferences_def)
  have ot: "processOtherAssets ap lib content (filepath_Join (ap_assetsDir ap) extensionID) extensionID w1
              = (content, w1)"
    using assms(1) by (intro processOtherAssets_fixed) (simp add: onlyInDocumentReferences_def)
  have "ProcessReadme ap lib w content extensionID = (Inr content, w1)"
    using False assms(2) im ot by (simp add: ProcessReadme_def Let_def)
  moreover have "requests w1 = requests w" "files w1 = files w"
    using assms(2) by (auto simp: os_MkdirAll_def split: if_splits)
  ultimately show ?thesis by simp
qed


theorem rewriter_identity_on_in_document_references_witness:
  "onlyInDocumentReferences sampleReadme
   \<and> os_MkdirAll (emptyWorld servingNet) (filepath_Join (ap_assetsDir sampleProcessor) ''ms-python.python'')
       = Some ((emptyWorld servingNet)\<lparr>dirs := {''data/assets/ms-python.python''}\<rparr>)
   \<and> fst (ProcessReadme sampleProcessor sampleLibrary (emptyWorld servingNet) sampleReadme
        ''ms-python.python'') = Inr sampleReadme
   \<and> requests (snd (ProcessReadme sampleProcessor sampleLibrary (emptyWorld servingNet) sampleReadme
        ''ms-python.python'')) = []"
proof -
  have mk: "os_MkdirAll (emptyWorld servingNet)
              (filepath_Join (ap_assetsDir sampleProcessor) ''ms-python.python'')
            = Some ((emptyWorld servingNet)\<lparr>dirs := {''data/assets/ms-python.python''}\<rparr>)"
    by (simp add: os_MkdirAll_def emptyWorld_def sampleProcessor_def sample_paths)
  from rewriter_identity_on_in_document_references [OF sampleReadme_local mk, of sampleLibrary]
    sampleReadme_local mk
  show ?thesis
    by (simp add: emptyWorld_def)
qed

section \<open>The rewriter on one remote image\<close>

lemma rmatch_needs_literal:
  "rmatch re s pos caps = Some r \<Longrightarrow> One (Lit c) \<in> set re \<Longrightarrow> c \<in> set s"
  by (induction re s pos caps rule: rmatch.induct)
    (auto split: if_splits option.splits)

lemma findFrom_without_literal:
  assumes "One (Lit c) \<in> set re" and "c \<notin> set s"
  shows "findFrom re s pos = None"
  using assms(2)
proof (induction s arbitrary: pos)
  case Nil
  have "rmatch re [] pos [] = None"
    using rmatch_needs_literal [OF _ assms(1), of "[]" pos "[]"] by (cases "rmatch re [] pos []") auto
  then show ?case by simp
next
  case (Cons x xs)
  have "rmatch re (x # xs) pos [] = None"
    using rmatch_needs_literal [OF _ assms(1), of "x # xs" pos "[]"] Cons.prems
    by (cases "rmatch re (x # xs) pos []") auto
  with Cons show ?case by simp
qed

lemma ReplaceAllStringFunc_without_literal:
  assumes "One (Lit c) \<in> set re" and "c \<notin> set src"
  shows "ReplaceAllStringFunc re src repl w = (src, w)"
  using findFrom_without_literal [OF assms, of 0]
  by (simp add: ReplaceAllStringFunc_def replaceAll.simps [of re repl src 0])

lemma rmatch_Star_all:
  assumes "\<forall>x \<in> set u. accepts c x"
    and "t = [] \<or> \<not> accepts c (hd t)"
    and "rmatch re t (pos + length u) caps = Some r"
  shows "rmatch (Star c # re) (u @ t) pos caps = Some r"
  using assms
proof (induction u arbitrary: pos)
  case Nil
  then show ?case by (cases t) auto
next
  case (Cons y ys)
  from Cons.prems have "rmatch (Star c # re) (ys @ t) (Suc pos) caps = Some r"
    by (intro Cons.IH) auto
  with Cons.prems show ?case by simp
qed

lemma rmatch_Plus_all:
  assumes "u \<noteq> []"
    and "\<forall>x \<in> set u. accepts c x"
    and "t = [] \<or> \<not> accepts c (hd t)"
    and "rmatch re t (pos + length u) caps = Some r"
  shows "rmatch (Plus c # re) (u @ t) pos caps = Some r"
proof (cases u)
  case Nil
  with assms(1) show ?thesis by simp
next
  case (Cons y ys)
  have "rmatch (Star c # re) (ys @ t) (Suc pos) caps = Some r"
    using assms(2,3,4) by (intro rmatch_Star_all) (auto simp: Cons)
  then show ?thesis
    using assms(2) by (simp add: Cons)
qed

lemma rmatch_link_tail:
  assumes "u \<noteq> []" and "CHR '')'' \<notin> set u"
  shows "rmatch [Plus (NoneOf '')''), Close, One (Lit (CHR '')''))] (u @ '')'') pos caps
           = Some (Suc (pos + length u), caps @ [pos + length u])"
  using assms by (intro rmatch_Plus_all) auto

lemma rmatch_markdownLink:
  assumes "u \<noteq> []" and "CHR '')'' \<notin> set u"
  shows "rmatch markdownLink (''[alt]('' @ u @ '')'') pos []
           = Some (pos + 7 + length u, [pos + 1, pos + 4, pos + 6, pos + 6 + length u])"
  using rmatch_link_tail [OF assms]
  by (simp add: markdownLink_def lits_def)


lemma findFrom_markdownLink:
  assumes "u \<noteq> []" and "CHR '')'' \<notin> set u"
  shows "findFrom markdownLink (''![alt]('' @ u @ '')'') 0
           = Some (1, 8 + length u, [2, 5, 7, 7 + length u])"
proof -
  have "rmatch markdownLink (''![alt]('' @ u @ '')'') 0 [] = None"
    by (simp add: markdownLink_def lits_def)
  then show ?thesis
    using rmatch_markdownLink [OF assms, of 1] by simp
qed

lemma FindStringSubmatch_markdownLink:
  assumes "u \<noteq> []" and "CHR '')'' \<notin> set u"
  shows "FindStringSubmatch markdownLink (''[alt]('' @ u @ '')'') = [''[alt]('' @ u @ '')'', ''alt'', u]"
proof -
  have "findFrom markdownLink (''[alt]('' @ u @ '')'') 0
          = Some (0, 7 + length u, [1, 4, 6, 6 + length u])"
    using rmatch_markdownLink [OF assms, of 0] by simp
  then show ?thesis
    by (simp add: FindStringSubmatch_def slice_def)
qed

lemma allMatches_markdownLink:
  assumes "u \<noteq> []" and "CHR '')'' \<notin> set u"
  shows "allMatches markdownLink (''![alt]('' @ u @ '')'') = [''[alt]('' @ u @ '')'']"
proof -
  let ?src = "''![alt]('' @ u @ '')''"
  have len: "length ?src = 8 + length u"
    by simp
  have "findFrom markdownLink (drop (8 + length u) ?src) (8 + length u) = None"
    by (simp add: markdownLink_def lits_def)
  then have stop: "matchesFrom markdownLink ?src (8 + length u) (8 + length u) = []"
    by (subst matchesFrom.simps) (simp del: append.simps)
  have "matchesFrom markdownLink ?src 0 0
          = [slice ?src 1 (8 + length u)]"
    using findFrom_markdownLink [OF assms] stop
    by (subst matchesFrom.simps) (simp del: append.simps add: max_def)
  then show ?thesis
    by (simp add: allMatches_def slice_def)
qed


lemma generateFileName_img:
  assumes "url_Path lib ''http://x/img.png'' = Some ''/img.png''"
  shows "generateFileName lib ''http://x/img.png'' contentType = ''img.png''"
  using assms by (simp add: generateFileName_def filepath_Base_def Let_def)

lemma downloadAsset_img:
  assumes "url_Path lib ''http://x/img.png'' = Some ''/img.png''"
    and "network w ''http://x/img.png'' = Response resp"
    and "StatusCode resp = 200"
    and "\<not> bodyFails resp"
    and "filepath_Join dir ''img.png'' \<notin> dirs w \<union> denied w"
  shows "downloadAsset lib w ''http://x/img.png'' dir
           = (Inr ''img.png'',
              w\<lparr>requests := requests w @ [''http://x/img.png''],
                files := (files w)(filepath_Join dir ''img.png'' \<mapsto> Body resp)\<rparr>)"
  using assms(2-5)
  by (simp add: downloadAsset_def generateFileName_img [OF assms(1)] os_Create_def Let_def)

lemma processImageMatch_img:
  assumes "url_Path lib ''http://x/img.png'' = Some ''/img.png''"
    and "network w ''http://x/img.png'' = Response resp"
    and "StatusCode resp = 200"
    and "\<not> bodyFails resp"
    and "filepath_Join dir ''img.png'' \<notin> dirs w \<union> denied w"
  shows "processImageMatch ap lib markdownImage dir extensionID ''![alt](http://x/img.png)'' w
           = (''![alt]('' @ (ap_baseURL ap @ ''/_assets/'' @ extensionID @ ''/img.png'') @ '')'',
              w\<lparr>requests := requests w @ [''http://x/img.png''],
                files := (files w)(filepath_Join dir ''img.png'' \<mapsto> Body resp)\<rparr>)"
proof -
  have m: "FindStringSubmatch markdownImage ''![alt](http://x/img.png)''
             = [''![alt](http://x/img.png)'', ''alt'', ''http://x/img.png'']"
    by (simp add: FindStringSubmatch_def markdownImage_def lits_def slice_def)
  show ?thesis
    unfolding processImageMatch_def m
    by (simp add: referenceOf_def HasPrefix_def Contains_def downloadAsset_img [OF assms]
        localAssetURL_def filepath_Base_def Let_def)
qed

lemma ReplaceAllStringFunc_whole:
  assumes "repl ''![alt](http://x/img.png)'' w = (r, w')"
  shows "ReplaceAllStringFunc markdownImage ''![alt](http://x/img.png)'' repl w = (r, w')"
proof -
  have f: "rmatch markdownImage ''![alt](http://x/img.png)'' 0 [] = Some (24, [2, 5, 7, 23])"
    by (simp add: markdownImage_def lits_def)
  have stop: "replaceAll markdownImage repl ''![alt](http://x/img.png)'' 24 24 buf w' = (buf, w')" for buf
    by (subst replaceAll.simps) (simp add: markdownImage_def lits_def)
  show ?thesis
    unfolding ReplaceAllStringFunc_def
    by (subst replaceAll.simps) (simp add: f slice_def assms stop)
qed


lemma processAssetMatch_absolute_link:
  assumes "u \<noteq> []" and "CHR '')'' \<notin> set u" and "HasPrefix u ''http''"
  shows "processAssetMatch ap lib markdownLink dir extensionID (''[alt]('' @ u @ '')'') w
           = (''[alt]('' @ u @ '')'', w)"
  unfolding processAssetMatch_def FindStringSubmatch_markdownLink [OF assms(1,2)]
  using assms(3) by (simp add: referenceOf_def)

text \<open>
  C7: for the readme \<^verbatim>\<open>![alt](http://x/img.png)\<close>, when the GET of \<^verbatim>\<open>http://x/img.png\<close>
  is answered with status 200 and a body that arrives whole, and the asset directory and the
  file in it can be created, \<^verbatim>\<open>ProcessReadme\<close> returns
  \<^verbatim>\<open>![alt]({baseURL}/_assets/{extensionID}/img.png)\<close>, the bytes of the body are the
  content of the file \<^verbatim>\<open>img.png\<close> in the asset directory of the extension, and that one
  request is the only one made. The base URL is an absolute \<^verbatim>\<open>http\<close> URL, and neither it
  nor the identifier contains \<^verbatim>\<open><\<close>, a double quote or \<^verbatim>\<open>)\<close>; \<^verbatim>\<open>url.Parse\<close> gives the
  path \<^verbatim>\<open>/img.png\<close> for the URL.
\<close>

theorem readme_image_rewritten:
  assumes "url_Path lib ''http://x/img.png'' = Some ''/img.png''"
    and "network w ''http://x/img.png'' = Response resp"
    and "StatusCode resp = 200"
    and "\<not> bodyFails resp"
    and "os_MkdirAll w (filepath_Join (ap_assetsDir ap) extensionID) = Some w1"
    and "filepath_Join (filepath_Join (ap_assetsDir ap) extensionID) ''img.png'' \<notin> dirs w1 \<union> denied w1"
    and "HasPrefix (ap_baseURL ap) ''http''"
    and "set (ap_baseURL ap @ extensionID) \<inter> {CHR ''<'', CHR 0x22, CHR '')''} = {}"
  shows "fst (ProcessReadme ap lib w ''![alt](http://x/img.png)'' extensionID)
           = Inr (''![alt]('' @ ap_baseURL ap @ ''/_assets/'' @ extensionID @ ''/img.png)'')
       \<and> files (snd (ProcessReadme ap lib w ''![alt](http://x/img.png)'' extensionID))
           (filepath_Join (filepath_Join (ap_assetsDir ap) extensionID) ''img.png'')
           = Some (Body resp)
       \<and> requests (snd (ProcessReadme ap lib w ''![alt](http://x/img.png)'' extensionID))
           = requests w @ [''http://x/img.png'']"
proof -
  define dir where "dir = filepath_Join (ap_assetsDir ap) extensionID"
  define u where "u = ap_baseURL ap @ ''/_assets/'' @ extensionID @ ''/img.png''"
  define R where "R = ''![alt]('' @ u @ '')''"
  define w2 where "w2 = w1\<lparr>requests := requests w1 @ [''http://x/img.png''],
                            files := (files w1)(filepath_Join dir ''img.png'' \<mapsto> Body resp)\<rparr>"
  have same: "network w1 = network w" "requests w1 = requests w"
    using assms(5) by (auto simp: os_MkdirAll_def split: if_splits)
  have u: "u \<noteq> []" "CHR '')'' \<notin> set u" "CHR ''<'' \<notin> set u" "CHR 0x22 \<notin> set u"
    using assms(8) by (auto simp: u_def)
  have http: "HasPrefix u ''http''"
    using assms(7) by (simp add: u_def HasPrefix_def prefix_prefix)
  have lt: "CHR ''<'' \<notin> set R" and qu: "CHR 0x22 \<notin> set R"
    using u by (simp_all add: R_def)
  have p1: "ReplaceAllStringFunc markdownImage ''![alt](http://x/img.png)''
              (processImageMatch ap lib markdownImage dir extensionID) w1 = (R, w2)"
    unfolding R_def u_def w2_def
    by (rule ReplaceAllStringFunc_whole, rule processImageMatch_img)
      (use assms same in \<open>simp_all add: dir_def\<close>)
  have p2: "ReplaceAllStringFunc imgTag R repl w2 = (R, w2)" for repl
    by (rule ReplaceAllStringFunc_without_literal [OF _ lt]) (simp add: imgTag_def lits_def)
  have p3: "ReplaceAllStringFunc markdownImageTitle R repl w2 = (R, w2)" for repl
    by (rule ReplaceAllStringFunc_without_literal [OF _ qu]) (simp add: markdownImageTitle_def lits_def)
  have p4: "ReplaceAllStringFunc linkTag R repl w2 = (R, w2)" for repl
    by (rule ReplaceAllStringFunc_without_literal [OF _ lt]) (simp add: linkTag_def lits_def)
  have p5: "ReplaceAllStringFunc scriptTag R repl w2 = (R, w2)" for repl
    by (rule ReplaceAllStringFunc_without_literal [OF _ lt]) (simp add: scriptTag_def lits_def)
  have p6: "ReplaceAllStringFunc markdownLink R
              (processAssetMatch ap lib markdownLink dir extensionID) w2 = (R, w2)"
    unfolding R_def
    by (rule ReplaceAllStringFunc_fixed)
      (simp add: allMatches_markdownLink [OF u(1,2)]
        processAssetMatch_absolute_link [OF u(1,2) http] del: append.simps)
  have "ProcessReadme ap lib w ''![alt](http://x/img.png)'' extensionID = (Inr R, w2)"
    using assms(5) p1 p2 p3 p4 p5 p6
    by (simp add: ProcessReadme_def processImages_def processOtherAssets_def imagePatterns_def
        otherPatterns_def dir_def [symmetric] Let_def)
  then show ?thesis
    by (simp add: R_def u_def w2_def dir_def same)
qed


theorem readme_image_rewritten_witness:
  "url_Path sampleLibrary ''http://x/img.png'' = Some ''/img.png''
   \<and> network (emptyWorld servingNet) ''http://x/img.png''
       = Response \<lparr> StatusCode = 200, ContentType = ''image/png'', Body = ''bytes'', bodyFails = False \<rparr>
   \<and> HasPrefix (ap_baseURL sampleProcessor) ''http''
   \<and> set (ap_baseURL sampleProcessor @ ''ms-python.python'') \<inter> {CHR ''<'', CHR 0x22, CHR '')''} = {}
   \<and> fst (ProcessReadme sampleProcessor sampleLibrary (emptyWorld servingNet)
        ''![alt](http://x/img.png)'' ''ms-python.python'')
       = Inr ''![alt](https://domain:8080/_assets/ms-python.python/img.png)''
   \<and> files (snd (ProcessReadme sampleProcessor sampleLibrary (emptyWorld servingNet)
        ''![alt](http://x/img.png)'' ''ms-python.python''))
        ''data/assets/ms-python.python/img.png'' = Some ''bytes''"
proof -
  let ?resp = "\<lparr> StatusCode = 200, ContentType = ''image/png'', Body = ''bytes'', bodyFails = False \<rparr>"
  let ?w1 = "(emptyWorld servingNet)\<lparr>dirs := {''data/assets/ms-python.python''}\<rparr>"
  have h1: "url_Path sampleLibrary ''http://x/img.png'' = Some ''/img.png''"
    by (simp add: sampleLibrary_def)
  have h2: "network (emptyWorld servingNet) ''http://x/img.png'' = Response ?resp"
    by (simp add: emptyWorld_def servingNet_def)
  have h3: "StatusCode ?resp = 200" and h4: "\<not> bodyFails ?resp"
    by simp_all
  have h5: "os_MkdirAll (emptyWorld servingNet)
              (filepath_Join (ap_assetsDir sampleProcessor) ''ms-python.python'') = Some ?w1"
    by (simp add: os_MkdirAll_def emptyWorld_def sampleProcessor_def sample_paths)
  have h6: "filepath_Join (filepath_Join (ap_assetsDir sampleProcessor) ''ms-python.python'') ''img.png''
              \<notin> dirs ?w1 \<union> denied ?w1"
    by (simp add: emptyWorld_def sampleProcessor_def sample_paths)
  have h7: "HasPrefix (ap_baseURL sampleProcessor) ''http''"
    by (simp add: HasPrefix_def sampleProcessor_def)
  have h8: "set (ap_baseURL sampleProcessor @ ''ms-python.python'') \<inter> {CHR ''<'', CHR 0x22, CHR '')''} = {}"
    by (simp add: sampleProcessor_def)
  from readme_image_rewritten [OF h1 h2 h3 h4 h5 h6 h7 h8] h1 h2 h7 h8
  show ?thesis
    by (simp add: sampleProcessor_def sample_paths)
qed


end
